theory Spec2Isabelle
  imports Main "HOL-Library.Word"
begin

unbundle bit_operations_syntax

section \<open>Strings\<close>

text \<open>
  Go strings are byte sequences; they are modelled as \<open>string\<close>. The functions
  below are the ones of package \<open>strings\<close> that the sources call.
\<close>

definition HasPrefix :: "string \<Rightarrow> string \<Rightarrow> bool" where
  "HasPrefix s p = (take (length p) s = p)"

definition TrimPrefix :: "string \<Rightarrow> string \<Rightarrow> string" where
  "TrimPrefix s p = (if HasPrefix s p then drop (length p) s else s)"

text \<open>\<open>strings.Index\<close>: the first position of \<open>sub\<close> in \<open>s\<close>; \<open>None\<close> is Go's \<open>-1\<close>.\<close>

fun Index :: "string \<Rightarrow> string \<Rightarrow> nat option" where
  "Index [] sub = (if sub = [] then Some 0 else None)"
| "Index (x # xs) sub =
     (if HasPrefix (x # xs) sub then Some 0 else map_option Suc (Index xs sub))"

definition Contains :: "string \<Rightarrow> string \<Rightarrow> bool" where
  "Contains s sub = (Index s sub \<noteq> None)"

text \<open>
  \<open>strings.TrimSpace\<close> removes the leading and trailing white space of Unicode. In
  UTF-8 these are the six ASCII bytes and the encodings of U+0085, U+00A0, U+1680,
  U+2000 to U+200A, U+2028, U+2029, U+202F, U+205F and U+3000.
\<close>

definition space_seqs :: "string list" where
  "space_seqs =
     [[CHR 0x09], [CHR 0x0A], [CHR 0x0B], [CHR 0x0C], [CHR 0x0D], [CHR 0x20],
      [CHR 0xC2, CHR 0x85], [CHR 0xC2, CHR 0xA0], [CHR 0xE1, CHR 0x9A, CHR 0x80],
      [CHR 0xE2, CHR 0x80, CHR 0x80], [CHR 0xE2, CHR 0x80, CHR 0x81],
      [CHR 0xE2, CHR 0x80, CHR 0x82], [CHR 0xE2, CHR 0x80, CHR 0x83],
      [CHR 0xE2, CHR 0x80, CHR 0x84], [CHR 0xE2, CHR 0x80, CHR 0x85],
      [CHR 0xE2, CHR 0x80, CHR 0x86], [CHR 0xE2, CHR 0x80, CHR 0x87],
      [CHR 0xE2, CHR 0x80, CHR 0x88], [CHR 0xE2, CHR 0x80, CHR 0x89],
      [CHR 0xE2, CHR 0x80, CHR 0x8A], [CHR 0xE2, CHR 0x80, CHR 0xA8],
      [CHR 0xE2, CHR 0x80, CHR 0xA9], [CHR 0xE2, CHR 0x80, CHR 0xAF],
      [CHR 0xE2, CHR 0x81, CHR 0x9F], [CHR 0xE3, CHR 0x80, CHR 0x80]]"

text \<open>\<open>trim_seqs qs s\<close> removes from the front of \<open>s\<close> every leading member of \<open>qs\<close>.\<close>

function trim_seqs :: "string list \<Rightarrow> string \<Rightarrow> string" where
  "trim_seqs qs s =
     (case find (\<lambda>q. q \<noteq> [] \<and> HasPrefix s q) qs of
        Some q \<Rightarrow> trim_seqs qs (drop (length q) s)
      | None \<Rightarrow> s)"
  by pat_completeness auto
termination
proof (relation "measure (\<lambda>(qs, s). length s)")
  show "wf (measure (\<lambda>(qs, s). length s))" by simp
next
  fix qs :: "string list" and s q :: string
  assume "find (\<lambda>q. q \<noteq> [] \<and> HasPrefix s q) qs = Some q"
  then have "q \<noteq> []" and "take (length q) s = q"
    by (auto simp: find_Some_iff HasPrefix_def)
  then have "s \<noteq> []" by auto
  with \<open>q \<noteq> []\<close> show "((qs, drop (length q) s), (qs, s)) \<in> measure (\<lambda>(qs, s). length s)"
    by simp
qed

declare trim_seqs.simps [simp del]

definition TrimSpace :: "string \<Rightarrow> string" where
  "TrimSpace s = rev (trim_seqs (map rev space_seqs) (rev (trim_seqs space_seqs s)))"

text \<open>
  A \<open>bufio.Scanner\<close> with the default split function and buffer: the input is cut
  at every newline, a carriage return at the end of a line is dropped, and a last line
  without newline is delivered unless it is empty. A line of 65536 bytes or more ends
  the scan with an error (the flag); that line and all after it are not delivered.
\<close>

fun split_lines :: "string \<Rightarrow> string list" where
  "split_lines [] = []"
| "split_lines (ch # cs) =
     (if ch = CHR 0x0A then [] # split_lines cs
      else case split_lines cs of [] \<Rightarrow> [[ch]] | l # ls \<Rightarrow> (ch # l) # ls)"

definition dropCR :: "string \<Rightarrow> string" where
  "dropCR l = (if l \<noteq> [] \<and> last l = CHR 0x0D then butlast l else l)"

fun scan_lines :: "string list \<Rightarrow> string list \<times> bool" where
  "scan_lines [] = ([], False)"
| "scan_lines (l # ls) =
     (if length l \<ge> 65536 then ([], True)
      else case scan_lines ls of (r, e) \<Rightarrow> (dropCR l # r, e))"

definition Scan :: "string \<Rightarrow> string list \<times> bool" where
  "Scan input = scan_lines (split_lines input)"

section \<open>Errors, calls and the world\<close>

type_synonym FileMode = "32 word"
type_synonym filters = "(string \<times> string) list"

text \<open>
  Every call that leaves the process: the system calls of the provisioner, the
  \<open>docker\<close> command line of the compose facade and the requests of the Docker SDK
  client. \<open>Sys_Stat\<close> and \<open>Sys_Open\<close> only read, and \<open>API_NewClient\<close> is the
  construction of the SDK client, which sends nothing; these three are not traced.
\<close>

datatype call =
    Sys_MkdirAll string FileMode
  | Sys_Chown string int int
  | Sys_Chmod string FileMode
  | Sys_OpenFile string FileMode
  | Sys_Copy string string
  | Sys_Stat string
  | Sys_Open string
  | Docker_CLI "string list"
  | API_ContainerList bool filters
  | API_ContainerInspect string
  | API_ContainerStop string
  | API_ContainersPrune filters
  | API_VolumesPrune filters
  | API_NetworksPrune filters
  | API_ImagesPrune filters
  | API_NewClient

text \<open>
  A Go \<open>error\<close>: the failure of an external call, a message, a wrapping
  (\<open>fmt.Errorf("...: %w", err)\<close>), or a run-time panic.
\<close>

datatype err = Fault call | Msg string | Wrap string err | Panic string

text \<open>A file with its content, mode, owner and group, or a directory.\<close>

datatype node = File string FileMode "32 word" "32 word" | Directory FileMode "32 word" "32 word"

record Port =
  PrivatePort :: "16 word"
  PublicPort :: "16 word"
  Type :: string

text \<open>
  What the engine knows of a container: the fields of the SDK's container summary
  that \<open>ListContainers\<close> reads, its labels, and \<open>s_Health\<close>, the
  \<open>State.Health\<close> of its inspection (\<open>None\<close> is the nil pointer).
\<close>

record summary =
  s_ID :: string
  s_Names :: "string list"
  s_Image :: string
  s_State :: string
  s_Status :: string
  s_Created :: int
  s_Ports :: "Port list"
  s_Labels :: "string \<rightharpoonup> string"
  s_Health :: "string option"

text \<open>
  The world a command runs in. \<open>files\<close>, \<open>umask\<close>, \<open>euid\<close> and \<open>egid\<close> are the
  filesystem and the identity of the process; \<open>trace\<close> lists, in order, the mutating
  system calls and the runtime invocations issued so far, and its length is the time.
  The rest is the environment, which the program never changes: \<open>fault t c\<close> says that
  call \<open>c\<close> issued at time \<open>t\<close> fails, \<open>engine t\<close> is the container set of the Docker
  engine at time \<open>t\<close>, \<open>cli t args\<close> the combined output of \<open>docker args\<close> run at time
  \<open>t\<close>, \<open>glob pattern\<close> the matches of a pattern, \<open>osenv\<close> the process environment.
  Terminal output is not modelled.
\<close>

record world =
  files :: "string \<rightharpoonup> node"
  umask :: FileMode
  euid :: "32 word"
  egid :: "32 word"
  trace :: "call list"
  fault :: "nat \<Rightarrow> call \<Rightarrow> bool"
  engine :: "nat \<Rightarrow> summary list"
  cli :: "nat \<Rightarrow> string list \<Rightarrow> string"
  glob :: "string \<Rightarrow> string list"
  osenv :: "string \<rightharpoonup> string"

definition now :: "world \<Rightarrow> nat" where
  "now w = length (trace w)"

definition emit :: "call \<Rightarrow> world \<Rightarrow> world" where
  "emit c w = w\<lparr>trace := trace w @ [c]\<rparr>"

section \<open>The Docker engine\<close>

text \<open>
  The engine's side of the list and prune requests, as the Engine API documents it.
  A container is running when its state is \<open>running\<close>, \<open>paused\<close> or \<open>restarting\<close>.
  A \<open>label\<close> filter \<open>k=v\<close> keeps the containers whose label \<open>k\<close> is \<open>v\<close>, a filter
  \<open>k\<close> those that have the label; other filter keys are not used by the client on
  these requests.
\<close>

definition is_running :: "summary \<Rightarrow> bool" where
  "is_running s = (s_State s \<in> {''running'', ''paused'', ''restarting''})"

definition match_label :: "string \<Rightarrow> summary \<Rightarrow> bool" where
  "match_label kv s =
     (let k = takeWhile (\<lambda>ch. ch \<noteq> CHR ''='') kv;
          r = dropWhile (\<lambda>ch. ch \<noteq> CHR ''='') kv
      in case r of [] \<Rightarrow> s_Labels s k \<noteq> None
                 | _ # v \<Rightarrow> s_Labels s k = Some v)"

definition match_filters :: "filters \<Rightarrow> summary \<Rightarrow> bool" where
  "match_filters fs s = (\<forall>(k, v) \<in> set fs. k = ''label'' \<longrightarrow> match_label v s)"

definition engine_list :: "bool \<Rightarrow> filters \<Rightarrow> summary list \<Rightarrow> summary list" where
  "engine_list all fs cs = filter (\<lambda>s. (all \<or> is_running s) \<and> match_filters fs s) cs"

text \<open>\<open>ContainersPrune\<close> deletes the containers that are not running and match the filters.\<close>

definition engine_prune :: "filters \<Rightarrow> summary list \<Rightarrow> summary list" where
  "engine_prune fs cs = filter (\<lambda>s. \<not> (\<not> is_running s \<and> match_filters fs s)) cs"

section \<open>The Docker SDK client\<close>

record Client =
  projectName :: string

record ContainerInfo =
  ID :: string
  Name :: string
  Image :: string
  State :: string
  Status :: string
  Health :: string
  Ports :: "string list"
  Created :: int

text \<open>Decimal rendering of \<open>%d\<close>.\<close>

fun dec :: "nat \<Rightarrow> string" where
  "dec n = (if n < 10 then [''0123456789'' ! n]
            else dec (n div 10) @ [''0123456789'' ! (n mod 10)])"

declare dec.simps [simp del]

definition format_port :: "Port \<Rightarrow> string" where
  "format_port p =
     dec (unat (PublicPort p)) @ ''->'' @ dec (unat (PrivatePort p)) @ ''/'' @ Type p"

definition format_ports :: "Port list \<Rightarrow> string list" where
  "format_ports ps = map format_port (filter (\<lambda>p. PublicPort p > 0) ps)"

text \<open>The filter of \<open>ListContainers\<close>: added only when the project name is not empty.\<close>

definition filterArgs :: "Client \<Rightarrow> filters" where
  "filterArgs c =
     (if projectName c \<noteq> [] then
        [(''label'', ''com.docker.compose.project='' @ projectName c)]
      else [])"

text \<open>
  \<open>ContainerInspect\<close> of a running container at the current time: the health status
  is taken only when the call succeeds and the health pointer is not nil.
\<close>

definition inspect_health :: "string \<Rightarrow> world \<Rightarrow> string \<times> world" where
  "inspect_health cid w =
     (let c = API_ContainerInspect cid; w' = emit c w in
      if fault w (now w) c then ([], w')
      else case find (\<lambda>s. s_ID s = cid) (engine w (now w)) of
             None \<Rightarrow> ([], w')
           | Some s \<Rightarrow> (case s_Health s of None \<Rightarrow> ([], w') | Some h \<Rightarrow> (h, w')))"

text \<open>
  The body of the loop of \<open>ListContainers\<close>. \<open>cont.ID[:12]\<close> and \<open>cont.Names[0]\<close>
  panic on an identifier shorter than 12 bytes and on an empty name list.
\<close>

fun build_infos :: "summary list \<Rightarrow> world \<Rightarrow> (err + ContainerInfo list) \<times> world" where
  "build_infos [] w = (Inr [], w)"
| "build_infos (cont # rest) w =
     (if length (s_ID cont) < 12 then (Inl (Panic ''slice bounds out of range''), w)
      else if s_Names cont = [] then (Inl (Panic ''index out of range''), w)
      else
        let (h, w1) = (if s_State cont = ''running'' then inspect_health (s_ID cont) w
                       else ([], w));
            info = \<lparr>ID = take 12 (s_ID cont),
                    Name = TrimPrefix (hd (s_Names cont)) ''/'',
                    Image = s_Image cont,
                    State = s_State cont,
                    Status = s_Status cont,
                    Health = h,
                    Ports = format_ports (s_Ports cont),
                    Created = s_Created cont\<rparr>
        in case build_infos rest w1 of
             (Inl e, w2) \<Rightarrow> (Inl e, w2)
           | (Inr infos, w2) \<Rightarrow> (Inr (info # infos), w2))"

definition ListContainers :: "Client \<Rightarrow> bool \<Rightarrow> world \<Rightarrow> (err + ContainerInfo list) \<times> world" where
  "ListContainers c all w =
     (let rq = API_ContainerList all (filterArgs c); w' = emit rq w in
      if fault w (now w) rq then (Inl (Wrap ''failed to list containers'' (Fault rq)), w')
      else build_infos (engine_list all (filterArgs c) (engine w (now w))) w')"

definition StopContainer :: "Client \<Rightarrow> string \<Rightarrow> world \<Rightarrow> err option \<times> world" where
  "StopContainer c containerID w =
     (let rq = API_ContainerStop containerID in
      (if fault w (now w) rq then Some (Fault rq) else None, emit rq w))"

definition prune_call :: "call \<Rightarrow> world \<Rightarrow> err option \<times> world" where
  "prune_call rq w = (if fault w (now w) rq then Some (Fault rq) else None, emit rq w)"

definition PruneContainers :: "Client \<Rightarrow> world \<Rightarrow> err option \<times> world" where
  "PruneContainers c w = prune_call (API_ContainersPrune []) w"

definition PruneVolumes :: "Client \<Rightarrow> world \<Rightarrow> err option \<times> world" where
  "PruneVolumes c w = prune_call (API_VolumesPrune []) w"

definition PruneNetworks :: "Client \<Rightarrow> world \<Rightarrow> err option \<times> world" where
  "PruneNetworks c w = prune_call (API_NetworksPrune []) w"

definition PruneImages :: "Client \<Rightarrow> world \<Rightarrow> err option \<times> world" where
  "PruneImages c w = prune_call (API_ImagesPrune [(''dangling'', ''false'')]) w"

text \<open>\<open>FindContainer\<close>: the first listed container whose name contains the service name.\<close>

definition FindContainer :: "Client \<Rightarrow> string \<Rightarrow> world \<Rightarrow> (err + ContainerInfo) \<times> world" where
  "FindContainer c serviceName w =
     (case ListContainers c True w of
        (Inl e, w') \<Rightarrow> (Inl e, w')
      | (Inr containers, w') \<Rightarrow>
          (case find (\<lambda>cont. Contains (Name cont) serviceName) containers of
             Some cont \<Rightarrow> (Inr cont, w')
           | None \<Rightarrow> (Inl (Msg (''container not found for service: '' @ serviceName)), w')))"

section \<open>Filesystem\<close>

text \<open>
  The system calls of package \<open>os\<close>. Each one is recorded in the trace, fails when the
  environment makes it fail, and otherwise changes \<open>files\<close>. Only the path itself is
  recorded by \<open>MkdirAll\<close>, not its ancestors. Modes are octal in the source:
  \<open>0600 = 384\<close>, \<open>0664 = 436\<close>, \<open>0666 = 438\<close>, \<open>0755 = 493\<close>, \<open>0775 = 509\<close>,
  \<open>0777 = 511\<close>, \<open>02775 = 1533\<close>.
\<close>

text \<open>
  \<open>syscallMode\<close> of package \<open>os\<close>: what reaches the kernel of a \<open>FileMode\<close> is its
  nine permission bits and the set-uid, set-gid and sticky bits of Go's own encoding
  (bits 23, 22 and 20).
\<close>

definition syscallMode :: "FileMode \<Rightarrow> FileMode" where
  "syscallMode i =
     (i AND 511) OR (if bit i 23 then 2048 else 0)
                 OR (if bit i 22 then 1024 else 0)
                 OR (if bit i 20 then 512 else 0)"

definition sys_MkdirAll :: "string \<Rightarrow> FileMode \<Rightarrow> world \<Rightarrow> err option \<times> world" where
  "sys_MkdirAll path perm w =
     (let c = Sys_MkdirAll path perm; w' = emit c w in
      if fault w (now w) c then (Some (Fault c), w')
      else case files w path of
             Some (Directory m u g) \<Rightarrow> (None, w')
           | Some (File d m u g) \<Rightarrow> (Some (Fault c), w')
           | None \<Rightarrow>
               (None, w'\<lparr>files := (files w)(path \<mapsto>
                  Directory (syscallMode perm AND NOT (umask w)) (euid w) (egid w))\<rparr>))"

text \<open>
  \<open>chown\<close>: the kernel takes the low 32 bits of each identifier, and the value \<open>-1\<close>
  leaves the owner or the group as it is.
\<close>

definition chown_id :: "int \<Rightarrow> 32 word \<Rightarrow> 32 word" where
  "chown_id i old = (if (word_of_int i :: 32 word) = - 1 then old else word_of_int i)"

definition sys_Chown :: "string \<Rightarrow> int \<Rightarrow> int \<Rightarrow> world \<Rightarrow> err option \<times> world" where
  "sys_Chown path uid gid w =
     (let c = Sys_Chown path uid gid; w' = emit c w in
      if fault w (now w) c then (Some (Fault c), w')
      else case files w path of
             None \<Rightarrow> (Some (Fault c), w')
           | Some (Directory m u g) \<Rightarrow>
               (None, w'\<lparr>files := (files w)(path \<mapsto>
                  Directory m (chown_id uid u) (chown_id gid g))\<rparr>)
           | Some (File d m u g) \<Rightarrow>
               (None, w'\<lparr>files := (files w)(path \<mapsto>
                  File d m (chown_id uid u) (chown_id gid g))\<rparr>))"

definition sys_Chmod :: "string \<Rightarrow> FileMode \<Rightarrow> world \<Rightarrow> err option \<times> world" where
  "sys_Chmod path mode w =
     (let c = Sys_Chmod path mode; w' = emit c w in
      if fault w (now w) c then (Some (Fault c), w')
      else case files w path of
             None \<Rightarrow> (Some (Fault c), w')
           | Some (Directory m u g) \<Rightarrow>
               (None, w'\<lparr>files := (files w)(path \<mapsto> Directory (syscallMode mode) u g)\<rparr>)
           | Some (File d m u g) \<Rightarrow>
               (None, w'\<lparr>files := (files w)(path \<mapsto> File d (syscallMode mode) u g)\<rparr>))"

text \<open>
  \<open>os.OpenFile\<close> with \<open>O_CREATE|O_TRUNC\<close>: an existing file is emptied and keeps its
  mode and owner; a new file gets the requested mode less the umask.
\<close>

definition sys_OpenFile :: "string \<Rightarrow> FileMode \<Rightarrow> world \<Rightarrow> err option \<times> world" where
  "sys_OpenFile path perm w =
     (let c = Sys_OpenFile path perm; w' = emit c w in
      if fault w (now w) c then (Some (Fault c), w')
      else case files w path of
             Some (Directory m u g) \<Rightarrow> (Some (Fault c), w')
           | Some (File d m u g) \<Rightarrow>
               (None, w'\<lparr>files := (files w)(path \<mapsto> File [] m u g)\<rparr>)
           | None \<Rightarrow>
               (None, w'\<lparr>files := (files w)(path \<mapsto>
                  File [] (syscallMode perm AND NOT (umask w)) (euid w) (egid w))\<rparr>))"

text \<open>\<open>io.Copy(dstFile, srcFile)\<close> on the two open files.\<close>

definition sys_Copy :: "string \<Rightarrow> string \<Rightarrow> world \<Rightarrow> err option \<times> world" where
  "sys_Copy src dst w =
     (let c = Sys_Copy src dst; w' = emit c w in
      if fault w (now w) c then (Some (Fault c), w')
      else case (files w src, files w dst) of
             (Some (File d m u g), Some (File d' m' u' g')) \<Rightarrow>
               (None, w'\<lparr>files := (files w)(dst \<mapsto> File d m' u' g')\<rparr>)
           | _ \<Rightarrow> (Some (Fault c), w'))"

datatype stat_result = StatOk | StatNotExist | StatErr

definition sys_Stat :: "string \<Rightarrow> world \<Rightarrow> stat_result" where
  "sys_Stat path w =
     (if fault w (now w) (Sys_Stat path) then StatErr
      else if files w path = None then StatNotExist else StatOk)"

definition sys_Open :: "string \<Rightarrow> world \<Rightarrow> err option" where
  "sys_Open path w =
     (if fault w (now w) (Sys_Open path) \<or> files w path = None
      then Some (Fault (Sys_Open path)) else None)"

subsection \<open>Paths\<close>

text \<open>
  Package \<open>path/filepath\<close> on a system whose separator is the slash.
  \<open>Clean\<close> drops empty and \<open>.\<close> elements, lets each \<open>..\<close> remove the element before it
  (at the root it is dropped, at the start of a relative path it stays), and gives
  \<open>.\<close> for the empty result. \<open>Join\<close> drops leading empty elements, joins the rest with
  the separator and cleans; \<open>Dir\<close> cleans what stands before the last element.
\<close>

fun split_on :: "char \<Rightarrow> string \<Rightarrow> string list" where
  "split_on sep [] = [[]]"
| "split_on sep (ch # cs) =
     (if ch = sep then [] # split_on sep cs
      else case split_on sep cs of [] \<Rightarrow> [[ch]] | l # ls \<Rightarrow> (ch # l) # ls)"

fun join_sep :: "string \<Rightarrow> string list \<Rightarrow> string" where
  "join_sep sep [] = []"
| "join_sep sep [x] = x"
| "join_sep sep (x # y # ys) = x @ sep @ join_sep sep (y # ys)"

text \<open>One element of the path against the stack of the elements kept so far.\<close>

definition clean_step :: "bool \<Rightarrow> string \<Rightarrow> string list \<Rightarrow> string list" where
  "clean_step rooted e st =
     (if e = ''..'' then
        (case st of
           [] \<Rightarrow> if rooted then [] else [''..'']
         | t # ts \<Rightarrow> if t = ''..'' then e # t # ts else ts)
      else e # st)"

definition Clean :: "string \<Rightarrow> string" where
  "Clean p =
     (let rooted = HasPrefix p ''/'';
          elems = filter (\<lambda>e. e \<noteq> [] \<and> e \<noteq> ''.'') (split_on CHR ''/'' p);
          body = join_sep ''/'' (rev (fold (clean_step rooted) elems []))
      in if rooted then CHR ''/'' # body else if body = [] then ''.'' else body)"

definition Join :: "string list \<Rightarrow> string" where
  "Join elem =
     (case dropWhile (\<lambda>e. e = []) elem of
        [] \<Rightarrow> []
      | e # es \<Rightarrow> Clean (join_sep ''/'' (e # es)))"

definition Dir :: "string \<Rightarrow> string" where
  "Dir p = Clean (rev (dropWhile (\<lambda>ch. ch \<noteq> CHR ''/'') (rev p)))"

definition Ext :: "string \<Rightarrow> string" where
  "Ext p =
     (let base = rev (takeWhile (\<lambda>ch. ch \<noteq> CHR ''/'') (rev p)) in
      if CHR ''.'' \<in> set base
      then CHR ''.'' # rev (takeWhile (\<lambda>ch. ch \<noteq> CHR ''.'') (rev base))
      else [])"

section \<open>Configuration loader: the environment file\<close>

definition trimQuotes :: "string \<Rightarrow> string" where
  "trimQuotes s =
     (if length s < 2 then s
      else if (hd s = CHR 0x22 \<and> last s = CHR 0x22) \<or> (hd s = CHR 0x27 \<and> last s = CHR 0x27)
        then take (length s - 2) (drop 1 s)
      else s)"

definition removeInlineComment :: "string \<Rightarrow> string" where
  "removeInlineComment s =
     (case find (\<lambda>i. s ! i = CHR ''#'' \<and> (s ! (i - 1) = CHR '' '' \<or> s ! (i - 1) = CHR 0x09))
                [1..<length s] of
        Some i \<Rightarrow> TrimSpace (take (i - 1) s)
      | None \<Rightarrow> s)"

text \<open>
  The value that replaces \<open>${varName}\<close>: \<open>env\<close> is the map of the keys parsed so
  far, \<open>os\<close> the process environment (\<open>os.LookupEnv\<close>).
\<close>

definition lookup_var :: "string \<Rightarrow> (string \<rightharpoonup> string) \<Rightarrow> (string \<rightharpoonup> string) \<Rightarrow> string" where
  "lookup_var varName env os =
     (case Index varName '':-'' of
        Some idx \<Rightarrow>
          (let defaultVal = drop (idx + 2) varName; name = take idx varName in
           case env name of
             Some val \<Rightarrow> if val \<noteq> [] then val else defaultVal
           | None \<Rightarrow> defaultVal)
      | None \<Rightarrow>
          (case env varName of
             Some val \<Rightarrow> val
           | None \<Rightarrow> (case os varName of Some val \<Rightarrow> val | None \<Rightarrow> [])))"

text \<open>
  \<open>expandVariables\<close>: the loop searches the whole of \<open>result\<close> again after every
  replacement. It may not end; \<open>None\<close> is the run that never returns. With \<open>start\<close>
  the position of \<open>${\<close> and \<open>e\<close> that of the next \<open>}\<close> counted from \<open>start\<close>, the
  name is \<open>result[start+2 : start+e]\<close> and the rest \<open>result[start+e+1:]\<close>.
\<close>

partial_function (option) expandVariables ::
  "string \<Rightarrow> (string \<rightharpoonup> string) \<Rightarrow> (string \<rightharpoonup> string) \<Rightarrow> string option" where
  "expandVariables result env os =
     (case Index result ''${'' of
        None \<Rightarrow> Some result
      | Some start \<Rightarrow>
          (case Index (drop start result) ''}'' of
             None \<Rightarrow> Some result
           | Some e \<Rightarrow>
               expandVariables
                 (take start result
                    @ lookup_var (take (e - 2) (drop (start + 2) result)) env os
                    @ drop (e + start + 1) result)
                 env os))"

declare expandVariables.simps [code]

text \<open>One line of the file, in the loop of \<open>ParseEnvFile\<close>.\<close>

definition parse_line ::
  "string \<Rightarrow> (string \<rightharpoonup> string) \<Rightarrow> (string \<rightharpoonup> string) \<Rightarrow> (string \<rightharpoonup> string) option" where
  "parse_line raw env os =
     (let line = TrimSpace raw in
      if line = [] \<or> HasPrefix line ''#'' then Some env
      else case Index line ''='' of
             None \<Rightarrow> Some env
           | Some idx \<Rightarrow>
               (let key = TrimSpace (take idx line);
                    v = removeInlineComment (trimQuotes (TrimSpace (drop (idx + 1) line)))
                in case expandVariables v env os of
                     None \<Rightarrow> None
                   | Some v' \<Rightarrow> Some (env(key \<mapsto> v'))))"

text \<open>
  \<open>ParseEnvFile\<close>: the file is opened and scanned line by line from the empty map;
  the error of the scanner is looked at after the loop. The result is \<open>None\<close> when an
  expansion never returns.
\<close>

fun parse_lines ::
  "string list \<Rightarrow> (string \<rightharpoonup> string) \<Rightarrow> (string \<rightharpoonup> string) \<Rightarrow> (string \<rightharpoonup> string) option" where
  "parse_lines [] env os = Some env"
| "parse_lines (l # ls) env os =
     (case parse_line l env os of None \<Rightarrow> None | Some env' \<Rightarrow> parse_lines ls env' os)"

definition ParseEnvFile :: "string \<Rightarrow> world \<Rightarrow> (err + (string \<rightharpoonup> string)) option" where
  "ParseEnvFile path w =
     (case sys_Open path w of
        Some e \<Rightarrow> Some (Inl (Wrap ''failed to open .env file'' e))
      | None \<Rightarrow>
          (case files w path of
             Some (File content m u g) \<Rightarrow>
               (case Scan content of
                  (lines, tooLong) \<Rightarrow>
                    (case parse_lines lines Map.empty (osenv w) of
                       None \<Rightarrow> None
                     | Some env \<Rightarrow>
                         if tooLong
                         then Some (Inl (Wrap ''error reading .env file'' (Msg ''token too long'')))
                         else Some (Inr env)))
           | _ \<Rightarrow> Some (Inl (Wrap ''error reading .env file'' (Fault (Sys_Open path))))))"

definition getEnvDefault :: "(string \<rightharpoonup> string) \<Rightarrow> string \<Rightarrow> string \<Rightarrow> string" where
  "getEnvDefault env key defaultVal =
     (case env key of Some val \<Rightarrow> if val \<noteq> [] then val else defaultVal
                    | None \<Rightarrow> defaultVal)"

text \<open>The project name that \<open>Load\<close> stores in the configuration.\<close>

definition Load_ProjectName :: "(string \<rightharpoonup> string) \<Rightarrow> string" where
  "Load_ProjectName env = getEnvDefault env ''COMPOSE_PROJECT_NAME'' ''mediastack''"

section \<open>Filesystem provisioner\<close>

definition DataDirectories :: "string list" where
  "DataDirectories =
     [''authentik/certs'', ''authentik/media'', ''authentik/templates'', ''bazarr'',
      ''chromium'', ''crowdsec/data'', ''ddns-updater'', ''filebot'', ''gluetun'',
      ''grafana'', ''headplane/data'', ''headscale/data'', ''heimdall'',
      ''homarr/configs'', ''homarr/data'', ''homarr/icons'', ''homepage'', ''huntarr'',
      ''jellyfin'', ''jellyseerr'', ''lidarr'', ''logs/unpackerr'', ''logs/traefik'',
      ''mylar'', ''plex'', ''portainer'', ''postgresql'', ''prometheus'', ''prowlarr'',
      ''qbittorrent'', ''radarr'', ''readarr'', ''sabnzbd'', ''sonarr'', ''tailscale'',
      ''tdarr/server'', ''tdarr/configs'', ''tdarr/logs'', ''tdarr-node'',
      ''traefik/letsencrypt'', ''traefik-certs-dumper'', ''unpackerr'', ''valkey'',
      ''whisparr'']"

definition MediaDirectories :: "string list" where
  "MediaDirectories =
     [''media/anime'', ''media/audio'', ''media/books'', ''media/comics'',
      ''media/movies'', ''media/music'', ''media/photos'', ''media/tv'', ''media/xxx'',
      ''usenet/anime'', ''usenet/audio'', ''usenet/books'', ''usenet/comics'',
      ''usenet/complete'', ''usenet/console'', ''usenet/incomplete'', ''usenet/movies'',
      ''usenet/music'', ''usenet/prowlarr'', ''usenet/software'', ''usenet/tv'',
      ''usenet/xxx'',
      ''torrents/anime'', ''torrents/audio'', ''torrents/books'', ''torrents/comics'',
      ''torrents/complete'', ''torrents/console'', ''torrents/incomplete'',
      ''torrents/movies'', ''torrents/music'', ''torrents/prowlarr'',
      ''torrents/software'', ''torrents/tv'', ''torrents/xxx'',
      ''watch'', ''filebot/input'', ''filebot/output'']"

text \<open>\<open>createDir\<close>: failures of \<open>Chown\<close> and \<open>Chmod\<close> are only warnings.\<close>

definition createDir :: "string \<Rightarrow> int \<Rightarrow> int \<Rightarrow> bool \<Rightarrow> bool \<Rightarrow> world \<Rightarrow> err option \<times> world" where
  "createDir path uid gid verbose dryRun w =
     (if dryRun then (None, w)
      else case sys_MkdirAll path 509 w of
             (Some e, w1) \<Rightarrow> (Some e, w1)
           | (None, w1) \<Rightarrow>
               (let w2 = snd (sys_Chown path uid gid w1);
                    w3 = snd (sys_Chmod path 1533 w2)
                in (None, w3)))"

fun createDirs ::
  "string \<Rightarrow> string \<Rightarrow> string list \<Rightarrow> int \<Rightarrow> int \<Rightarrow> bool \<Rightarrow> bool \<Rightarrow> world \<Rightarrow> err option \<times> world" where
  "createDirs kind root [] uid gid verbose dryRun w = (None, w)"
| "createDirs kind root (dir # ds) uid gid verbose dryRun w =
     (case createDir (Join [root, dir]) uid gid verbose dryRun w of
        (Some e, w') \<Rightarrow>
          (Some (Wrap (''failed to create '' @ kind @ '' directory '' @ dir) e), w')
      | (None, w') \<Rightarrow> createDirs kind root ds uid gid verbose dryRun w')"

definition CreateDirectories ::
  "string \<Rightarrow> string \<Rightarrow> int \<Rightarrow> int \<Rightarrow> bool \<Rightarrow> bool \<Rightarrow> world \<Rightarrow> err option \<times> world" where
  "CreateDirectories dataFolder mediaFolder uid gid verbose dryRun w =
     (case createDirs ''data'' dataFolder DataDirectories uid gid verbose dryRun w of
        (Some e, w') \<Rightarrow> (Some e, w')
      | (None, w') \<Rightarrow> createDirs ''media'' mediaFolder MediaDirectories uid gid verbose dryRun w')"

record ConfigFile =
  Source :: string
  Destination :: string
  Permission :: FileMode

definition ConfigFiles :: "ConfigFile list" where
  "ConfigFiles =
     [\<lparr>Source = ''headplane-config.yaml'', Destination = ''headplane/config.yaml'', Permission = 436\<rparr>,
      \<lparr>Source = ''headscale-config.yaml'', Destination = ''headscale/config.yaml'', Permission = 436\<rparr>,
      \<lparr>Source = ''traefik-static.yaml'', Destination = ''traefik/traefik.yaml'', Permission = 436\<rparr>,
      \<lparr>Source = ''traefik-dynamic.yaml'', Destination = ''traefik/dynamic.yaml'', Permission = 436\<rparr>,
      \<lparr>Source = ''traefik-internal.yaml'', Destination = ''traefik/internal.yaml'', Permission = 436\<rparr>,
      \<lparr>Source = ''crowdsec-acquis.yaml'', Destination = ''crowdsec/acquis.yaml'', Permission = 436\<rparr>]"

record SpecialFile =
  Path :: string
  sf_Permission :: FileMode
  Create :: bool

definition SpecialFiles :: "SpecialFile list" where
  "SpecialFiles =
     [\<lparr>Path = ''traefik/letsencrypt/acme.json'', sf_Permission = 384, Create = True\<rparr>]"

text \<open>
  \<open>copyFile\<close>: the mode \<open>perm\<close> is only an argument of \<open>os.OpenFile\<close>; no \<open>Chmod\<close>
  follows.
\<close>

definition copyFile :: "string \<Rightarrow> string \<Rightarrow> FileMode \<Rightarrow> world \<Rightarrow> err option \<times> world" where
  "copyFile src dst perm w =
     (case sys_Open src w of
        Some e \<Rightarrow> (Some (Wrap ''failed to open source'' e), w)
      | None \<Rightarrow>
          (case sys_MkdirAll (Dir dst) 493 w of
             (Some e, w1) \<Rightarrow> (Some (Wrap ''failed to create destination directory'' e), w1)
           | (None, w1) \<Rightarrow>
               (case sys_OpenFile dst perm w1 of
                  (Some e, w2) \<Rightarrow> (Some (Wrap ''failed to create destination'' e), w2)
                | (None, w2) \<Rightarrow>
                    (case sys_Copy src dst w2 of
                       (Some e, w3) \<Rightarrow> (Some (Wrap ''failed to copy contents'' e), w3)
                     | (None, w3) \<Rightarrow> (None, w3)))))"

text \<open>The first loop of \<open>CopyConfigFiles\<close>, over the manifest.\<close>

fun copy_entries ::
  "ConfigFile list \<Rightarrow> string \<Rightarrow> string \<Rightarrow> int \<Rightarrow> int \<Rightarrow> bool \<Rightarrow> bool \<Rightarrow> world \<Rightarrow> err option \<times> world" where
  "copy_entries [] configDir dataFolder uid gid verbose dryRun w = (None, w)"
| "copy_entries (cf # cfs) configDir dataFolder uid gid verbose dryRun w =
     (let src = Join [configDir, Source cf]; dst = Join [dataFolder, Destination cf] in
      if dryRun then copy_entries cfs configDir dataFolder uid gid verbose dryRun w
      else if sys_Stat src w = StatNotExist
        then copy_entries cfs configDir dataFolder uid gid verbose dryRun w
      else case copyFile src dst (Permission cf) w of
             (Some e, w1) \<Rightarrow> (Some (Wrap (''failed to copy '' @ Source cf) e), w1)
           | (None, w1) \<Rightarrow>
               copy_entries cfs configDir dataFolder uid gid verbose dryRun
                 (snd (sys_Chown dst uid gid w1)))"

text \<open>The second loop, over the special files. \<open>os.Create\<close> opens with mode \<open>0666\<close>.\<close>

fun special_entries ::
  "SpecialFile list \<Rightarrow> string \<Rightarrow> int \<Rightarrow> int \<Rightarrow> bool \<Rightarrow> bool \<Rightarrow> world \<Rightarrow> err option \<times> world" where
  "special_entries [] dataFolder uid gid verbose dryRun w = (None, w)"
| "special_entries (sf # sfs) dataFolder uid gid verbose dryRun w =
     (let fullPath = Join [dataFolder, Path sf] in
      if dryRun then special_entries sfs dataFolder uid gid verbose dryRun w
      else
        case (if Create sf \<and> sys_Stat fullPath w = StatNotExist then
                (case sys_MkdirAll (Dir fullPath) 493 w of
                   (Some e, w1) \<Rightarrow>
                     (Some (Wrap (''failed to create directory for '' @ Path sf) e), w1)
                 | (None, w1) \<Rightarrow>
                     (case sys_OpenFile fullPath 438 w1 of
                        (Some e, w2) \<Rightarrow> (Some (Wrap (''failed to create '' @ Path sf) e), w2)
                      | (None, w2) \<Rightarrow> (None, w2)))
              else (None, w)) of
          (Some e, w2) \<Rightarrow> (Some e, w2)
        | (None, w2) \<Rightarrow>
            (case sys_Chmod fullPath (sf_Permission sf) w2 of
               (Some e, w3) \<Rightarrow>
                 (Some (Wrap (''failed to set permissions on '' @ Path sf) e), w3)
             | (None, w3) \<Rightarrow>
                 special_entries sfs dataFolder uid gid verbose dryRun
                   (snd (sys_Chown fullPath uid gid w3))))"

definition CopyConfigFiles ::
  "string \<Rightarrow> string \<Rightarrow> int \<Rightarrow> int \<Rightarrow> bool \<Rightarrow> bool \<Rightarrow> world \<Rightarrow> err option \<times> world" where
  "CopyConfigFiles configDir dataFolder uid gid verbose dryRun w =
     (case copy_entries ConfigFiles configDir dataFolder uid gid verbose dryRun w of
        (Some e, w') \<Rightarrow> (Some e, w')
      | (None, w') \<Rightarrow> special_entries SpecialFiles dataFolder uid gid verbose dryRun w')"

text \<open>
  \<open>SetConfigPermissions\<close>: the inner loop over the matches of one pattern. Failures
  of \<open>Chmod\<close> and \<open>Chown\<close> are only warnings; the function always returns nil.
\<close>

fun set_matches :: "string list \<Rightarrow> int \<Rightarrow> int \<Rightarrow> bool \<Rightarrow> bool \<Rightarrow> world \<Rightarrow> world" where
  "set_matches [] uid gid verbose dryRun w = w"
| "set_matches (match # ms) uid gid verbose dryRun w =
     (if dryRun then set_matches ms uid gid verbose dryRun w
      else
        let perm = (if Ext match = ''.sh'' then 509 else 436);
            w1 = snd (sys_Chmod match perm w);
            w2 = snd (sys_Chown match uid gid w1)
        in set_matches ms uid gid verbose dryRun w2)"

fun set_patterns :: "string list \<Rightarrow> string \<Rightarrow> int \<Rightarrow> int \<Rightarrow> bool \<Rightarrow> bool \<Rightarrow> world \<Rightarrow> world" where
  "set_patterns [] configDir uid gid verbose dryRun w = w"
| "set_patterns (pattern # ps) configDir uid gid verbose dryRun w =
     set_patterns ps configDir uid gid verbose dryRun
       (set_matches (glob w (Join [configDir, pattern])) uid gid verbose dryRun w)"

definition SetConfigPermissions ::
  "string \<Rightarrow> int \<Rightarrow> int \<Rightarrow> bool \<Rightarrow> bool \<Rightarrow> world \<Rightarrow> err option \<times> world" where
  "SetConfigPermissions configDir uid gid verbose dryRun w =
     (None, set_patterns [''*.yaml'', ''*.yml'', ''.env'', ''*.sh''] configDir uid gid verbose dryRun w)"

section \<open>Container runtime facade: the compose command line\<close>

record Compose =
  cmp_projectName :: string
  cmp_configDir :: string
  cmp_composeFile :: string
  cmp_envFile :: string
  cmp_verbose :: bool

definition NewCompose :: "string \<Rightarrow> string \<Rightarrow> string \<Rightarrow> Compose" where
  "NewCompose project dir file =
     \<lparr>cmp_projectName = project, cmp_configDir = dir,
      cmp_composeFile = file, cmp_envFile = Join [dir, ''.env''],
      cmp_verbose = False\<rparr>"

definition SetVerbose :: "Compose \<Rightarrow> bool \<Rightarrow> Compose" where
  "SetVerbose c v = c\<lparr>cmp_verbose := v\<rparr>"

definition baseArgs :: "Compose \<Rightarrow> string list" where
  "baseArgs c =
     [''compose'', ''-f'', cmp_composeFile c, ''--env-file'', cmp_envFile c]
       @ (if cmp_projectName c \<noteq> [] then [''-p'', cmp_projectName c] else [])"

text \<open>
  \<open>runCommand\<close> runs \<open>docker\<close> with the base arguments and \<open>args\<close>. Streamed, the
  error of the process is returned as it is; captured, the output is attached to it.
\<close>

definition runCommand :: "Compose \<Rightarrow> string list \<Rightarrow> bool \<Rightarrow> world \<Rightarrow> err option \<times> world" where
  "runCommand c args stream w =
     (let rq = Docker_CLI (baseArgs c @ args); w' = emit rq w in
      if fault w (now w) rq then
        (if stream then (Some (Fault rq), w')
         else (Some (Wrap (cli w (now w) (baseArgs c @ args)) (Fault rq)), w'))
      else (None, w'))"

definition runCommandOutput :: "Compose \<Rightarrow> string list \<Rightarrow> world \<Rightarrow> (err + string) \<times> world" where
  "runCommandOutput c args w =
     (let rq = Docker_CLI (baseArgs c @ args); w' = emit rq w in
      if fault w (now w) rq then
        (Inl (Wrap (cli w (now w) (baseArgs c @ args)) (Fault rq)), w')
      else (Inr (cli w (now w) (baseArgs c @ args)), w'))"

definition Config :: "Compose \<Rightarrow> world \<Rightarrow> err option \<times> world" where
  "Config c w = runCommand c [''config'', ''--quiet''] False w"

text \<open>
  \<open>ConfigServices\<close> does not look at the error of the scanner: after a line that is
  too long the list simply ends.
\<close>

definition ConfigServices :: "Compose \<Rightarrow> world \<Rightarrow> (err + string list) \<times> world" where
  "ConfigServices c w =
     (case runCommandOutput c [''config'', ''--services''] w of
        (Inl e, w') \<Rightarrow> (Inl e, w')
      | (Inr output, w') \<Rightarrow>
          (Inr (filter (\<lambda>line. line \<noteq> []) (map TrimSpace (fst (Scan output)))), w'))"

definition Pull :: "Compose \<Rightarrow> world \<Rightarrow> err option \<times> world" where
  "Pull c w = runCommand c [''pull''] True w"

text \<open>
  \<open>Compose.Up\<close> builds the argument list of the \<open>up\<close> subcommand. Its third
  parameter is called \<open>build\<close> in the source; the deploy command passes its
  \<open>--force\<close> flag ("Force recreate all containers") in that position.
\<close>

definition Up_args :: "bool \<Rightarrow> bool \<Rightarrow> string list" where
  "Up_args detach build =
     ([''up''] @ (if detach then [''-d''] else [])
              @ (if build then [''--build''] else []))
     @ [''--remove-orphans'']"

definition Up :: "Compose \<Rightarrow> bool \<Rightarrow> bool \<Rightarrow> world \<Rightarrow> err option \<times> world" where
  "Up c detach build w = runCommand c (Up_args detach build) True w"

definition GetContainerID :: "Compose \<Rightarrow> string \<Rightarrow> world \<Rightarrow> (err + string) \<times> world" where
  "GetContainerID c service w =
     (case runCommandOutput c [''ps'', ''-q'', service] w of
        (Inl e, w') \<Rightarrow> (Inl e, w')
      | (Inr output, w') \<Rightarrow> (Inr (TrimSpace output), w'))"

definition IsRunning :: "Compose \<Rightarrow> string \<Rightarrow> world \<Rightarrow> (err + bool) \<times> world" where
  "IsRunning c service w =
     (case GetContainerID c service w of
        (Inl e, w') \<Rightarrow> (Inl e, w')
      | (Inr cid, w') \<Rightarrow> (Inr (cid \<noteq> []), w'))"

section \<open>Deployment orchestrator\<close>

record Config =
  ConfigDir :: string
  MediaFolder :: string
  DataFolder :: string
  PUID :: int
  PGID :: int
  Variant :: string
  ProjectName :: string

definition NormalizeVariant :: "string \<Rightarrow> string" where
  "NormalizeVariant v =
     (if v = ''full'' then ''full-download-vpn''
      else if v = ''mini'' then ''mini-download-vpn''
      else if v = ''no-vpn'' then ''no-download-vpn''
      else v)"

definition ComposeFile :: "Config \<Rightarrow> string" where
  "ComposeFile c = Join [Dir (ConfigDir c), Variant c, ''docker-compose.yaml'']"

text \<open>The flags of the \<open>deploy\<close> command.\<close>

record flags =
  pullFirst :: bool
  noDirs :: bool
  noFiles :: bool
  force :: bool
  prune :: bool

text \<open>Steps 1 to 3 of \<open>runDeploy\<close>: directories, permissions, configuration files.\<close>

definition deploy_prepare :: "flags \<Rightarrow> Config \<Rightarrow> bool \<Rightarrow> bool \<Rightarrow> world \<Rightarrow> err option \<times> world" where
  "deploy_prepare fl cfg dryRun verbose w =
     (case (if \<not> noDirs fl then
              (case CreateDirectories (DataFolder cfg) (MediaFolder cfg) (PUID cfg) (PGID cfg)
                      verbose dryRun w of
                 (Some e, w1) \<Rightarrow> (Some (Wrap ''failed to create directories'' e), w1)
               | (None, w1) \<Rightarrow> (None, w1))
            else (None, w)) of
        (Some e, w1) \<Rightarrow> (Some e, w1)
      | (None, w1) \<Rightarrow>
          (case SetConfigPermissions (ConfigDir cfg) (PUID cfg) (PGID cfg) verbose dryRun w1 of
             (Some e, w2) \<Rightarrow> (Some (Wrap ''failed to set permissions'' e), w2)
           | (None, w2) \<Rightarrow>
               (if \<not> noFiles fl then
                  (case CopyConfigFiles (ConfigDir cfg) (DataFolder cfg) (PUID cfg) (PGID cfg)
                          verbose dryRun w2 of
                     (Some e, w3) \<Rightarrow> (Some (Wrap ''failed to copy config files'' e), w3)
                   | (None, w3) \<Rightarrow> (None, w3))
                else (None, w2))))"

text \<open>Step 6: the stop loop; a failed stop is a warning.\<close>

fun stop_loop :: "Client \<Rightarrow> ContainerInfo list \<Rightarrow> world \<Rightarrow> world" where
  "stop_loop client [] w = w"
| "stop_loop client (c # cs) w = stop_loop client cs (snd (StopContainer client (ID c) w))"

text \<open>The identifiers given to \<open>ContainerStop\<close> in a trace, in order.\<close>

fun stop_ids :: "call list \<Rightarrow> string list" where
  "stop_ids [] = []"
| "stop_ids (API_ContainerStop i # cs) = i # stop_ids cs"
| "stop_ids (c # cs) = stop_ids cs"

text \<open>
  Step 6 after the client is made: list the running containers of the project, stop
  each, then prune containers, volumes and networks. An error of the listing or of a
  prune is a warning; a panic inside \<open>ListContainers\<close> ends the command.
\<close>

definition teardown :: "Client \<Rightarrow> world \<Rightarrow> err option \<times> world" where
  "teardown client w =
     (case (case ListContainers client False w of
              (Inl (Panic m), w1) \<Rightarrow> (Some (Panic m), w1)
            | (Inl e, w1) \<Rightarrow> (None, w1)
            | (Inr containers, w1) \<Rightarrow> (None, stop_loop client containers w1)) of
        (Some e, w1) \<Rightarrow> (Some e, w1)
      | (None, w1) \<Rightarrow>
          (let w2 = snd (PruneContainers client w1);
               w3 = snd (PruneVolumes client w2);
               w4 = snd (PruneNetworks client w3)
           in (None, w4)))"

text \<open>Step 8: the tally of the services that run and of those that do not.\<close>

fun verify_loop :: "Compose \<Rightarrow> string list \<Rightarrow> nat \<Rightarrow> nat \<Rightarrow> world \<Rightarrow> (nat \<times> nat) \<times> world" where
  "verify_loop c [] running failed w = ((running, failed), w)"
| "verify_loop c (service # ss) running failed w =
     (case IsRunning c service w of
        (Inl e, w') \<Rightarrow> verify_loop c ss running (failed + 1) w'
      | (Inr isRunning, w') \<Rightarrow>
          (if \<not> isRunning then verify_loop c ss running (failed + 1) w'
           else verify_loop c ss (running + 1) failed w'))"

definition verify :: "Compose \<Rightarrow> world \<Rightarrow> (nat \<times> nat) option \<times> world" where
  "verify c w =
     (case ConfigServices c w of
        (Inl e, w') \<Rightarrow> (None, w')
      | (Inr services, w') \<Rightarrow>
          (case verify_loop c services 0 0 w' of (tally, w'') \<Rightarrow> (Some tally, w'')))"

text \<open>Steps 8 and 9: the tally is printed, an error of the image prune is a warning.\<close>

definition deploy_finish :: "flags \<Rightarrow> Compose \<Rightarrow> Client \<Rightarrow> world \<Rightarrow> err option \<times> world" where
  "deploy_finish fl compose client w =
     (let w1 = snd (verify compose w);
          w2 = (if prune fl then snd (PruneImages client w1) else w1)
      in (None, w2))"

text \<open>The facade that \<open>runDeploy\<close> makes in step 4 and uses to the end.\<close>

definition deploy_compose :: "Config \<Rightarrow> bool \<Rightarrow> Compose" where
  "deploy_compose cfg verbose =
     SetVerbose (NewCompose (ProjectName cfg) (ConfigDir cfg) (ComposeFile cfg)) verbose"

text \<open>Steps 6 to 9: the client is made, the old containers go, the services start.\<close>

definition deploy_replace :: "flags \<Rightarrow> Config \<Rightarrow> Compose \<Rightarrow> world \<Rightarrow> err option \<times> world" where
  "deploy_replace fl cfg compose w2 =
     (if fault w2 (now w2) API_NewClient then
        (Some (Wrap ''failed to create Docker client'' (Fault API_NewClient)), w2)
      else
        let client = \<lparr>projectName = ProjectName cfg\<rparr> in
        case teardown client w2 of
          (Some e, w3) \<Rightarrow> (Some e, w3)
        | (None, w3) \<Rightarrow>
            (case Up compose True (force fl) w3 of
               (Some e, w4) \<Rightarrow> (Some (Wrap ''failed to start services'' e), w4)
             | (None, w4) \<Rightarrow> deploy_finish fl compose client w4))"

text \<open>Steps 4 to 9.\<close>

definition deploy_runtime :: "flags \<Rightarrow> Config \<Rightarrow> bool \<Rightarrow> world \<Rightarrow> err option \<times> world" where
  "deploy_runtime fl cfg verbose w =
     (let compose = deploy_compose cfg verbose in
      case Config compose w of
        (Some e, w1) \<Rightarrow> (Some (Wrap ''compose configuration is invalid'' e), w1)
      | (None, w1) \<Rightarrow>
          (if pullFirst fl then
             (case Pull compose w1 of
                (Some e, w2) \<Rightarrow> (Some (Wrap ''failed to pull images'' e), w2)
              | (None, w2) \<Rightarrow> deploy_replace fl cfg compose w2)
           else deploy_replace fl cfg compose w1))"

text \<open>The start of \<open>runDeploy\<close>: a variant that is set is normalized.\<close>

definition normalized :: "Config \<Rightarrow> Config" where
  "normalized cfg0 =
     (if Variant cfg0 \<noteq> [] then cfg0\<lparr>Variant := NormalizeVariant (Variant cfg0)\<rparr> else cfg0)"

definition runDeploy :: "flags \<Rightarrow> Config \<Rightarrow> bool \<Rightarrow> bool \<Rightarrow> world \<Rightarrow> err option \<times> world" where
  "runDeploy fl cfg0 dryRun verbose w =
     (let cfg = normalized cfg0 in
      case deploy_prepare fl cfg dryRun verbose w of
        (Some e, w3) \<Rightarrow> (Some e, w3)
      | (None, w3) \<Rightarrow>
          (if dryRun then (None, w3) else deploy_runtime fl cfg verbose w3))"

section \<open>A host with two projects\<close>

text \<open>
  A host that runs the stack \<open>mediastack\<close> beside a project \<open>blog\<close>. Of each project
  one container runs and one has exited; the exited \<open>radarr\<close> has a health check.
\<close>

definition sonarr :: summary where
  "sonarr = \<lparr>s_ID = ''aaaaaaaaaaaaaaaa'', s_Names = [''/mediastack-sonarr-1''],
     s_Image = ''sonarr'', s_State = ''running'', s_Status = ''Up 2 hours'', s_Created = 1,
     s_Ports = [\<lparr>PrivatePort = 8989, PublicPort = 8989, Type = ''tcp''\<rparr>],
     s_Labels = [''com.docker.compose.project'' \<mapsto> ''mediastack''],
     s_Health = Some ''healthy''\<rparr>"

definition radarr :: summary where
  "radarr = \<lparr>s_ID = ''bbbbbbbbbbbbbbbb'', s_Names = [''/mediastack-radarr-1''],
     s_Image = ''radarr'', s_State = ''exited'', s_Status = ''Exited (1)'', s_Created = 2,
     s_Ports = [],
     s_Labels = [''com.docker.compose.project'' \<mapsto> ''mediastack''],
     s_Health = Some ''unhealthy''\<rparr>"

definition blog_db :: summary where
  "blog_db = \<lparr>s_ID = ''cccccccccccccccc'', s_Names = [''/blog-db-1''],
     s_Image = ''postgres'', s_State = ''running'', s_Status = ''Up 3 days'', s_Created = 3,
     s_Ports = [],
     s_Labels = [''com.docker.compose.project'' \<mapsto> ''blog''],
     s_Health = None\<rparr>"

definition blog_web :: summary where
  "blog_web = \<lparr>s_ID = ''dddddddddddddddd'', s_Names = [''/blog-web-1''],
     s_Image = ''nginx'', s_State = ''exited'', s_Status = ''Exited (0)'', s_Created = 4,
     s_Ports = [],
     s_Labels = [''com.docker.compose.project'' \<mapsto> ''blog''],
     s_Health = None\<rparr>"

definition host :: world where
  "host = \<lparr>files = Map.empty, umask = 18, euid = 1000, egid = 1000, trace = [],
     fault = (\<lambda>t c. False),
     engine = (\<lambda>t. [sonarr, radarr, blog_db, blog_web]),
     cli = (\<lambda>t args. []), glob = (\<lambda>pattern. []), osenv = Map.empty\<rparr>"

definition sonarr_info :: ContainerInfo where
  "sonarr_info = \<lparr>ID = ''aaaaaaaaaaaa'', Name = ''mediastack-sonarr-1'', Image = ''sonarr'',
     State = ''running'', Status = ''Up 2 hours'', Health = ''healthy'',
     Ports = [''8989->8989/tcp''], Created = 1\<rparr>"

definition radarr_info :: ContainerInfo where
  "radarr_info = \<lparr>ID = ''bbbbbbbbbbbb'', Name = ''mediastack-radarr-1'', Image = ''radarr'',
     State = ''exited'', Status = ''Exited (1)'', Health = [],
     Ports = [], Created = 2\<rparr>"

definition blog_db_info :: ContainerInfo where
  "blog_db_info = \<lparr>ID = ''cccccccccccc'', Name = ''blog-db-1'', Image = ''postgres'',
     State = ''running'', Status = ''Up 3 days'', Health = [],
     Ports = [], Created = 3\<rparr>"

definition blog_web_info :: ContainerInfo where
  "blog_web_info = \<lparr>ID = ''dddddddddddd'', Name = ''blog-web-1'', Image = ''nginx'',
     State = ''exited'', Status = ''Exited (0)'', Health = [],
     Ports = [], Created = 4\<rparr>"

text \<open>A loaded configuration, and the flags of \<open>deploy --force --no-directories --no-files --prune=false\<close>.\<close>

definition demo_cfg :: Config where
  "demo_cfg = \<lparr>ConfigDir = ''/docker/base-working-files'', MediaFolder = ''/srv/media'',
     DataFolder = ''/srv/data'', PUID = 1000, PGID = 1000, Variant = ''full'',
     ProjectName = ''mediastack''\<rparr>"

definition force_flags :: flags where
  "force_flags = \<lparr>pullFirst = False, noDirs = True, noFiles = True, force = True, prune = False\<rparr>"

definition mediastack :: Client where
  "mediastack = \<lparr>projectName = ''mediastack''\<rparr>"

definition unnamed :: Client where
  "unnamed = \<lparr>projectName = []\<rparr>"

section \<open>Project scoping\<close>

lemma build_infos_ids:
  "build_infos cs w = (Inr infos, w') \<Longrightarrow> map ID infos = map (\<lambda>s. take 12 (s_ID s)) cs"
proof (induction cs arbitrary: w infos w')
  case Nil
  then show ?case by simp
next
  case (Cons cont rest)
  then show ?case
    by (auto simp: Let_def split: if_splits prod.splits sum.splits)
qed

lemma build_infos_health:
  "build_infos cs w = (Inr infos, w') \<Longrightarrow> i \<in> set infos \<Longrightarrow> Health i \<noteq> [] \<Longrightarrow> State i = ''running''"
proof (induction cs arbitrary: w infos w')
  case Nil
  then show ?case by simp
next
  case (Cons cont rest)
  then show ?case
    by (auto simp: Let_def split: if_splits prod.splits sum.splits)
qed

lemma build_infos_names:
  "build_infos cs w = (Inr infos, w') \<Longrightarrow> i \<in> set infos \<Longrightarrow>
     \<exists>s \<in> set cs. ID i = take 12 (s_ID s) \<and> Name i = TrimPrefix (hd (s_Names s)) ''/''"
proof (induction cs arbitrary: w infos w')
  case Nil
  then show ?case by simp
next
  case (Cons cont rest)
  then show ?case
    by (fastforce simp: Let_def split: if_splits prod.splits sum.splits)
qed

lemma match_project_label:
  "match_filters [(''label'', ''com.docker.compose.project='' @ p)] s
     = (s_Labels s ''com.docker.compose.project'' = Some p)"
  by (simp add: match_filters_def match_label_def)

lemma match_no_filter: "match_filters [] s"
  by (simp add: match_filters_def)

lemma engine_list_named:
  "projectName c \<noteq> [] \<Longrightarrow>
   engine_list all (filterArgs c) cs =
     filter (\<lambda>s. (all \<or> is_running s) \<and> s_Labels s ''com.docker.compose.project'' = Some (projectName c)) cs"
  by (simp only: engine_list_def filterArgs_def match_project_label if_True not_False_eq_True)

lemma engine_list_unnamed:
  "projectName c = [] \<Longrightarrow> engine_list all (filterArgs c) cs = filter (\<lambda>s. all \<or> is_running s) cs"
  by (simp add: engine_list_def filterArgs_def match_no_filter)

lemma ListContainers_Inr:
  "fst (ListContainers c all w) = Inr infos \<Longrightarrow>
   \<exists>w1 w'. build_infos (engine_list all (filterArgs c) (engine w (now w))) w1 = (Inr infos, w')"
  by (auto simp: ListContainers_def Let_def split: if_splits) (metis prod.collapse)

lemma stop_ids_append: "stop_ids (xs @ ys) = stop_ids xs @ stop_ids ys"
  by (induction xs rule: stop_ids.induct) auto

lemma inspect_health_stops: "stop_ids (trace (snd (inspect_health cid w))) = stop_ids (trace w)"
  by (simp add: inspect_health_def emit_def Let_def stop_ids_append split: option.splits)

lemma build_infos_stops: "stop_ids (trace (snd (build_infos cs w))) = stop_ids (trace w)"
proof (induction cs arbitrary: w)
  case Nil
  then show ?case by simp
next
  case (Cons cont rest)
  show ?case
  proof (cases "length (s_ID cont) < 12 \<or> s_Names cont = []")
    case True
    then show ?thesis by auto
  next
    case False
    then show ?thesis
      using Cons.IH [of "snd (inspect_health (s_ID cont) w)"] Cons.IH [of w]
      by (auto simp: Let_def inspect_health_stops split: prod.splits sum.splits)
  qed
qed

lemma ListContainers_stops: "stop_ids (trace (snd (ListContainers c all w))) = stop_ids (trace w)"
  by (simp add: ListContainers_def Let_def build_infos_stops emit_def stop_ids_append)

lemma stop_loop_stops:
  "stop_ids (trace (stop_loop c infos w)) = stop_ids (trace w) @ map ID infos"
  by (induction infos arbitrary: w) (auto simp: StopContainer_def emit_def Let_def stop_ids_append)

lemma prune_call_trace: "trace (snd (prune_call rq w)) = trace w @ [rq]"
  by (simp add: prune_call_def emit_def)

lemma teardown_stops:
  "stop_ids (trace (snd (teardown c w))) =
     stop_ids (trace w) @ (case fst (ListContainers c False w) of Inl e \<Rightarrow> [] | Inr infos \<Rightarrow> map ID infos)"
proof (cases "ListContainers c False w")
  case (Pair r w1)
  have w1: "stop_ids (trace w1) = stop_ids (trace w)"
    using ListContainers_stops [of c False w] Pair by simp
  show ?thesis
  proof (cases r)
    case (Inl e)
    with Pair w1 show ?thesis
      by (cases e) (simp_all add: teardown_def PruneContainers_def PruneVolumes_def PruneNetworks_def
          prune_call_trace stop_ids_append Let_def)
  next
    case (Inr infos)
    with Pair w1 show ?thesis
      by (simp add: teardown_def PruneContainers_def PruneVolumes_def PruneNetworks_def
          prune_call_trace stop_ids_append stop_loop_stops Let_def)
  qed
qed

lemma teardown_prunes:
  "fst (teardown c w) = None \<Longrightarrow>
   \<exists>pre. trace (snd (teardown c w)) = pre @ [API_ContainersPrune [], API_VolumesPrune [], API_NetworksPrune []]"
  by (auto simp: teardown_def PruneContainers_def PruneVolumes_def PruneNetworks_def
          prune_call_trace Let_def split: prod.splits sum.splits err.splits)


lemma FindContainer_Inr:
  "fst (FindContainer c svc w) = Inr info \<Longrightarrow>
   \<exists>infos. fst (ListContainers c True w) = Inr infos \<and> info \<in> set infos \<and> Contains (Name info) svc"
  by (auto simp: FindContainer_def find_Some_iff split: prod.splits sum.splits option.splits)

lemmas host_defs = host_def mediastack_def unnamed_def sonarr_def radarr_def blog_db_def blog_web_def
  sonarr_info_def radarr_info_def blog_db_info_def
lemmas client_defs = ListContainers_def engine_list_def filterArgs_def
  match_filters_def match_label_def is_running_def inspect_health_def emit_def now_def
  TrimPrefix_def HasPrefix_def format_ports_def format_port_def dec.simps Let_def
lemmas teardown_defs = teardown_def StopContainer_def PruneContainers_def PruneVolumes_def
  PruneNetworks_def prune_call_def

text \<open>
  For a client with a project name: the listing, the stop list of the teardown and
  \<open>FindContainer\<close> are confined to the containers that carry the project label.
\<close>

lemma label_scoped_named:
  assumes "projectName c \<noteq> []"
  shows "(fst (ListContainers c all w) = Inr infos \<longrightarrow>
            map ID infos = map (\<lambda>s. take 12 (s_ID s))
              (filter (\<lambda>s. (all \<or> is_running s)
                         \<and> s_Labels s ''com.docker.compose.project'' = Some (projectName c))
                 (engine w (now w))))
       \<and> stop_ids (trace (snd (teardown c w))) =
            stop_ids (trace w) @
              (case fst (ListContainers c False w) of
                 Inl e \<Rightarrow> []
               | Inr listed \<Rightarrow>
                   map (\<lambda>s. take 12 (s_ID s))
                     (filter (\<lambda>s. is_running s
                                \<and> s_Labels s ''com.docker.compose.project'' = Some (projectName c))
                        (engine w (now w))))
       \<and> (fst (FindContainer c svc w) = Inr info \<longrightarrow>
            Contains (Name info) svc
            \<and> (\<exists>s \<in> set (engine w (now w)).
                  s_Labels s ''com.docker.compose.project'' = Some (projectName c)
                  \<and> ID info = take 12 (s_ID s)
                  \<and> Name info = TrimPrefix (hd (s_Names s)) ''/''))"
proof (intro conjI impI)
  have ids: "map ID l = map (\<lambda>s. take 12 (s_ID s))
              (filter (\<lambda>s. (a \<or> is_running s)
                         \<and> s_Labels s ''com.docker.compose.project'' = Some (projectName c))
                 (engine w (now w)))"
    if "fst (ListContainers c a w) = Inr l" for a l
    using ListContainers_Inr [OF that] build_infos_ids engine_list_named [OF assms] by metis
  show "map ID infos = map (\<lambda>s. take 12 (s_ID s))
              (filter (\<lambda>s. (all \<or> is_running s)
                         \<and> s_Labels s ''com.docker.compose.project'' = Some (projectName c))
                 (engine w (now w)))"
    if "fst (ListContainers c all w) = Inr infos"
    using ids [OF that] .
  show "stop_ids (trace (snd (teardown c w))) =
            stop_ids (trace w) @
              (case fst (ListContainers c False w) of
                 Inl e \<Rightarrow> []
               | Inr listed \<Rightarrow>
                   map (\<lambda>s. take 12 (s_ID s))
                     (filter (\<lambda>s. is_running s
                                \<and> s_Labels s ''com.docker.compose.project'' = Some (projectName c))
                        (engine w (now w))))"
  proof (cases "fst (ListContainers c False w)")
    case (Inl e)
    then show ?thesis by (simp add: teardown_stops)
  next
    case (Inr listed)
    then show ?thesis using ids [OF Inr] by (simp add: teardown_stops)
  qed
next
  assume f: "fst (FindContainer c svc w) = Inr info"
  from FindContainer_Inr [OF f] obtain l where
    l: "fst (ListContainers c True w) = Inr l" "info \<in> set l" "Contains (Name info) svc"
    by blast
  show "Contains (Name info) svc" by (rule l(3))
  from ListContainers_Inr [OF l(1)] obtain w1 w' where
    b: "build_infos (engine_list True (filterArgs c) (engine w (now w))) w1 = (Inr l, w')"
    by blast
  from build_infos_names [OF b l(2)] obtain s where
    s: "s \<in> set (engine_list True (filterArgs c) (engine w (now w)))"
       "ID info = take 12 (s_ID s)" "Name info = TrimPrefix (hd (s_Names s)) ''/''"
    by blast
  from s(1) have "s \<in> set (engine w (now w))"
      "s_Labels s ''com.docker.compose.project'' = Some (projectName c)"
    by (simp_all add: engine_list_named [OF assms])
  with s show "\<exists>s \<in> set (engine w (now w)).
                  s_Labels s ''com.docker.compose.project'' = Some (projectName c)
                  \<and> ID info = take 12 (s_ID s)
                  \<and> Name info = TrimPrefix (hd (s_Names s)) ''/''"
    by blast
qed

lemma Load_ProjectName_nonempty: "Load_ProjectName env \<noteq> []"
  by (simp add: Load_ProjectName_def getEnvDefault_def split: option.splits)

text \<open>
  C1. The client of every command is made from the project name that \<open>Load\<close> stores.
  For every environment file and every state of the host, its listing holds exactly
  the containers of the engine that carry the configured project label (and run,
  unless stopped ones are asked for); the stop list of the teardown is exactly the
  running containers with that label, so no container of another project is
  enumerated or stopped; and a container that \<open>FindContainer\<close> locates by the service
  name carries the configured label.
\<close>

theorem C1_project_scoping:
  "(fst (ListContainers \<lparr>projectName = Load_ProjectName env\<rparr> all w) = Inr infos \<longrightarrow>
      map ID infos = map (\<lambda>s. take 12 (s_ID s))
        (filter (\<lambda>s. (all \<or> is_running s)
                   \<and> s_Labels s ''com.docker.compose.project'' = Some (Load_ProjectName env))
           (engine w (now w))))
   \<and> stop_ids (trace (snd (teardown \<lparr>projectName = Load_ProjectName env\<rparr> w))) =
        stop_ids (trace w) @
          (case fst (ListContainers \<lparr>projectName = Load_ProjectName env\<rparr> False w) of
             Inl e \<Rightarrow> []
           | Inr listed \<Rightarrow>
               map (\<lambda>s. take 12 (s_ID s))
                 (filter (\<lambda>s. is_running s
                            \<and> s_Labels s ''com.docker.compose.project'' = Some (Load_ProjectName env))
                    (engine w (now w))))
   \<and> (fst (FindContainer \<lparr>projectName = Load_ProjectName env\<rparr> svc w) = Inr info \<longrightarrow>
        (\<exists>s \<in> set (engine w (now w)).
            s_Labels s ''com.docker.compose.project'' = Some (Load_ProjectName env)
            \<and> ID info = take 12 (s_ID s)
            \<and> Name info = TrimPrefix (hd (s_Names s)) ''/''))"
proof -
  have n: "projectName \<lparr>projectName = Load_ProjectName env\<rparr> \<noteq> []"
    by (simp add: Load_ProjectName_nonempty)
  from label_scoped_named [OF n, of all w infos svc info] show ?thesis
    by (simp cong: sum.case_cong)
qed

text \<open>
  C1 on the host with two projects, for an environment file that sets no project name:
  only \<open>sonarr\<close> is listed and stopped, and the containers of \<open>blog\<close> are not.
\<close>

theorem C1_project_scoping_witness:
  "fst (ListContainers \<lparr>projectName = Load_ProjectName Map.empty\<rparr> False host) = Inr [sonarr_info]
   \<and> stop_ids (trace (snd (teardown \<lparr>projectName = Load_ProjectName Map.empty\<rparr> host)))
       = [take 12 (s_ID sonarr)]
   \<and> fst (FindContainer \<lparr>projectName = Load_ProjectName Map.empty\<rparr> ''sonarr'' host)
       = Inr sonarr_info
   \<and> s_Labels sonarr ''com.docker.compose.project'' = Some (Load_ProjectName Map.empty)
   \<and> s_Labels blog_db ''com.docker.compose.project'' = Some ''blog''
   \<and> is_running blog_db \<and> blog_db \<in> set (engine host (now host))"
proof -
  have p: "\<lparr>projectName = ''mediastack''\<rparr> = mediastack"
    by (simp add: mediastack_def)
  have l: "fst (ListContainers mediastack False host) = Inr [sonarr_info]"
    by (simp add: host_defs client_defs)
  have f: "fst (FindContainer mediastack ''sonarr'' host) = Inr sonarr_info"
    by (simp add: FindContainer_def Contains_def host_defs client_defs)
  have e: "filter (\<lambda>s. is_running s
              \<and> s_Labels s ''com.docker.compose.project'' = Some ''mediastack'')
             (engine host (now host)) = [sonarr]"
    by (simp add: host_defs is_running_def)
  have n: "Load_ProjectName Map.empty = ''mediastack''"
    by (simp add: Load_ProjectName_def getEnvDefault_def)
  have t: "trace host = []" by (simp add: host_def)
  have b: "s_Labels sonarr ''com.docker.compose.project'' = Some ''mediastack''"
    "s_Labels blog_db ''com.docker.compose.project'' = Some ''blog''"
    "is_running blog_db" "blog_db \<in> set (engine host (now host))"
    by (simp_all add: host_defs is_running_def)
  show ?thesis
    using C1_project_scoping [of Map.empty False host "[sonarr_info]" "''sonarr''" sonarr_info]
      l f e t b
    unfolding n p by (simp cong: sum.case_cong)
qed

section \<open>Health\<close>

text \<open>
  C8. In every list that \<open>ListContainers\<close> returns, a record with a non-empty
  \<open>Health\<close> has the state \<open>running\<close>: a container in any other state has an empty
  health value, whatever health check it has.
\<close>

theorem C8_health_only_when_running:
  "fst (ListContainers c all w) = Inr infos \<Longrightarrow> i \<in> set infos \<Longrightarrow> Health i \<noteq> []
   \<Longrightarrow> State i = ''running''"
  using ListContainers_Inr build_infos_health by blast

text \<open>C8 on the host: the exited \<open>radarr\<close> has a health check and no health value.\<close>

theorem C8_health_only_when_running_witness:
  "fst (ListContainers mediastack True host) = Inr [sonarr_info, radarr_info]
   \<and> Health sonarr_info \<noteq> [] \<and> State sonarr_info = ''running''
   \<and> s_Health radarr = Some ''unhealthy'' \<and> State radarr_info = ''exited''
   \<and> Health radarr_info = []"
proof -
  have l: "fst (ListContainers mediastack True host) = Inr [sonarr_info, radarr_info]"
    by (simp add: host_defs client_defs)
  have m: "sonarr_info \<in> set [sonarr_info, radarr_info]" by simp
  have h: "Health sonarr_info \<noteq> []" by (simp add: sonarr_info_def)
  show ?thesis
    using C8_health_only_when_running [OF l m h] l h
    by (simp add: radarr_def radarr_info_def)
qed

section \<open>The empty project name\<close>

lemma build_infos_trace: "\<exists>r. trace (snd (build_infos cs w)) = trace w @ r"
proof (induction cs arbitrary: w)
  case Nil
  then show ?case by simp
next
  case (Cons cont rest)
  have i: "\<exists>r. trace (snd (inspect_health cid w)) = trace w @ r" for cid
    by (simp add: inspect_health_def emit_def Let_def split: option.splits)
  show ?case
  proof (cases "length (s_ID cont) < 12 \<or> s_Names cont = []")
    case True
    then show ?thesis by auto
  next
    case False
    obtain h w1 where hw: "(if s_State cont = ''running'' then inspect_health (s_ID cont) w
                            else ([], w)) = (h, w1)"
      by (cases "if s_State cont = ''running'' then inspect_health (s_ID cont) w else ([], w)")
    then obtain r1 where r1: "trace w1 = trace w @ r1"
      using i [of "s_ID cont"] by (auto split: if_splits)
    from Cons.IH [of w1] obtain r2 where r2: "trace (snd (build_infos rest w1)) = trace w1 @ r2"
      by blast
    from False hw r1 r2 show ?thesis
      by (cases "build_infos rest w1") (auto simp: Let_def split: sum.splits)
  qed
qed

lemma ListContainers_request:
  "\<exists>r. trace (snd (ListContainers c all w)) = trace w @ API_ContainerList all (filterArgs c) # r"
proof (cases "fault w (now w) (API_ContainerList all (filterArgs c))")
  case True
  then show ?thesis by (simp add: ListContainers_def Let_def emit_def)
next
  case False
  from build_infos_trace
    [of "engine_list all (filterArgs c) (engine w (now w))"
        "emit (API_ContainerList all (filterArgs c)) w"]
  obtain r where "trace (snd (build_infos (engine_list all (filterArgs c) (engine w (now w)))
                    (emit (API_ContainerList all (filterArgs c)) w)))
                  = trace (emit (API_ContainerList all (filterArgs c)) w) @ r"
    by blast
  with False show ?thesis by (simp add: ListContainers_def Let_def emit_def)
qed

text \<open>
  C10. With an empty project name \<open>ListContainers\<close> sends its request without a filter
  and lists every container of the engine, subject only to the flag for stopped ones,
  and the teardown stops every running container of the host. With a non-empty name
  the request carries the project label filter, and the listing and the stop list hold
  only the containers with that label. The project name that \<open>Load\<close> stores is never
  empty.
\<close>

theorem C10_filter_only_when_named:
  "(projectName c = [] \<longrightarrow>
      (\<exists>r. trace (snd (ListContainers c all w)) = trace w @ API_ContainerList all [] # r)
      \<and> (fst (ListContainers c all w) = Inr infos \<longrightarrow>
           map ID infos = map (\<lambda>s. take 12 (s_ID s))
             (filter (\<lambda>s. all \<or> is_running s) (engine w (now w))))
      \<and> stop_ids (trace (snd (teardown c w))) =
           stop_ids (trace w) @
             (case fst (ListContainers c False w) of
                Inl e \<Rightarrow> []
              | Inr listed \<Rightarrow>
                  map (\<lambda>s. take 12 (s_ID s)) (filter is_running (engine w (now w)))))
   \<and> (projectName c \<noteq> [] \<longrightarrow>
        (\<exists>r. trace (snd (ListContainers c all w)) =
                trace w @ API_ContainerList all
                  [(''label'', ''com.docker.compose.project='' @ projectName c)] # r)
        \<and> (fst (ListContainers c all w) = Inr infos \<longrightarrow>
             map ID infos = map (\<lambda>s. take 12 (s_ID s))
               (filter (\<lambda>s. (all \<or> is_running s)
                          \<and> s_Labels s ''com.docker.compose.project'' = Some (projectName c))
                  (engine w (now w))))
        \<and> stop_ids (trace (snd (teardown c w))) =
             stop_ids (trace w) @
               (case fst (ListContainers c False w) of
                  Inl e \<Rightarrow> []
                | Inr listed \<Rightarrow>
                    map (\<lambda>s. take 12 (s_ID s))
                      (filter (\<lambda>s. is_running s
                                 \<and> s_Labels s ''com.docker.compose.project'' = Some (projectName c))
                         (engine w (now w)))))
   \<and> Load_ProjectName env \<noteq> []"
proof (intro conjI impI)
  assume e: "projectName c = []"
  then have f: "filterArgs c = []" by (simp add: filterArgs_def)
  from ListContainers_request [of c all w] f
  show "\<exists>r. trace (snd (ListContainers c all w)) = trace w @ API_ContainerList all [] # r"
    by simp
  have ids: "map ID l = map (\<lambda>s. take 12 (s_ID s))
               (filter (\<lambda>s. a \<or> is_running s) (engine w (now w)))"
    if "fst (ListContainers c a w) = Inr l" for a l
    using ListContainers_Inr [OF that] build_infos_ids engine_list_unnamed [OF e] by metis
  show "stop_ids (trace (snd (teardown c w))) =
           stop_ids (trace w) @
             (case fst (ListContainers c False w) of
                Inl e \<Rightarrow> []
              | Inr listed \<Rightarrow>
                  map (\<lambda>s. take 12 (s_ID s)) (filter is_running (engine w (now w))))"
  proof (cases "fst (ListContainers c False w)")
    case (Inl x)
    then show ?thesis by (simp add: teardown_stops)
  next
    case (Inr listed)
    then show ?thesis using ids [OF Inr] by (simp add: teardown_stops)
  qed
  assume "fst (ListContainers c all w) = Inr infos"
  from ids [OF this]
  show "map ID infos = map (\<lambda>s. take 12 (s_ID s))
             (filter (\<lambda>s. all \<or> is_running s) (engine w (now w)))" .
next
  assume n: "projectName c \<noteq> []"
  then have f: "filterArgs c = [(''label'', ''com.docker.compose.project='' @ projectName c)]"
    by (simp add: filterArgs_def)
  from ListContainers_request [of c all w]
  show "\<exists>r. trace (snd (ListContainers c all w)) =
                trace w @ API_ContainerList all
                  [(''label'', ''com.docker.compose.project='' @ projectName c)] # r"
    unfolding f .
  from label_scoped_named [OF n, of False w "[]" "[]" undefined]
  show "stop_ids (trace (snd (teardown c w))) =
             stop_ids (trace w) @
               (case fst (ListContainers c False w) of
                  Inl e \<Rightarrow> []
                | Inr listed \<Rightarrow>
                    map (\<lambda>s. take 12 (s_ID s))
                      (filter (\<lambda>s. is_running s
                                 \<and> s_Labels s ''com.docker.compose.project'' = Some (projectName c))
                         (engine w (now w))))"
    by blast
  assume "fst (ListContainers c all w) = Inr infos"
  with label_scoped_named [OF n, of all w infos "[]" undefined]
  show "map ID infos = map (\<lambda>s. take 12 (s_ID s))
               (filter (\<lambda>s. (all \<or> is_running s)
                          \<and> s_Labels s ''com.docker.compose.project'' = Some (projectName c))
                  (engine w (now w)))"
    by blast
next
  show "Load_ProjectName env \<noteq> []" by (rule Load_ProjectName_nonempty)
qed

text \<open>
  C10 on the host: the client without a project name lists all four containers and
  its teardown stops the running container of \<open>blog\<close>; the client of \<open>mediastack\<close> sends
  the label filter and lists only its own two.
\<close>

theorem C10_filter_only_when_named_witness:
  "projectName unnamed = []
   \<and> fst (ListContainers unnamed True host)
       = Inr [sonarr_info, radarr_info, blog_db_info, blog_web_info]
   \<and> map ID [sonarr_info, radarr_info, blog_db_info, blog_web_info]
        = map (\<lambda>s. take 12 (s_ID s)) (engine host (now host))
   \<and> stop_ids (trace (snd (teardown unnamed host))) = [''aaaaaaaaaaaa'', ''cccccccccccc'']
   \<and> projectName mediastack \<noteq> []
   \<and> fst (ListContainers mediastack True host) = Inr [sonarr_info, radarr_info]
   \<and> trace (snd (ListContainers mediastack True host))
       = [API_ContainerList True [(''label'', ''com.docker.compose.project=mediastack'')],
          API_ContainerInspect ''aaaaaaaaaaaaaaaa'']
   \<and> Load_ProjectName [''COMPOSE_PROJECT_NAME'' \<mapsto> []] = ''mediastack''"
proof -
  have e: "projectName unnamed = []" by (simp add: unnamed_def)
  have n: "projectName mediastack \<noteq> []" by (simp add: mediastack_def)
  have l: "fst (ListContainers unnamed True host)
             = Inr [sonarr_info, radarr_info, blog_db_info, blog_web_info]"
    by (simp add: host_defs blog_web_info_def client_defs)
  have s: "stop_ids (trace (snd (teardown unnamed host))) = [''aaaaaaaaaaaa'', ''cccccccccccc'']"
    by (simp add: teardown_defs host_defs client_defs)
  have m: "fst (ListContainers mediastack True host) = Inr [sonarr_info, radarr_info]"
    by (simp add: host_defs client_defs)
  have r: "trace (snd (ListContainers mediastack True host))
       = [API_ContainerList True [(''label'', ''com.docker.compose.project=mediastack'')],
          API_ContainerInspect ''aaaaaaaaaaaaaaaa'']"
    by (simp add: host_defs client_defs)
  have d: "Load_ProjectName [''COMPOSE_PROJECT_NAME'' \<mapsto> []] = ''mediastack''"
    by (simp add: Load_ProjectName_def getEnvDefault_def)
  have i: "map ID [sonarr_info, radarr_info, blog_db_info, blog_web_info]
        = map (\<lambda>s. take 12 (s_ID s)) (engine host (now host))"
    by (simp add: host_defs blog_web_info_def)
  show ?thesis
    using C10_filter_only_when_named [of unnamed True host
        "[sonarr_info, radarr_info, blog_db_info, blog_web_info]" "[''COMPOSE_PROJECT_NAME'' \<mapsto> []]"]
      C10_filter_only_when_named [of mediastack True host "[sonarr_info, radarr_info]" Map.empty]
      e n l s m r d i
    by simp
qed

section \<open>Pruning\<close>

text \<open>
  C2 (as amended). Every prune request of containers, volumes and networks carries an
  empty filter set, whatever the project name of the client; the engine then deletes
  every container that is not running, whatever its labels; and a teardown that
  returns ends with these three requests.
\<close>

theorem C2_prunes_not_scoped:
  "trace (snd (PruneContainers c w)) = trace w @ [API_ContainersPrune []]
   \<and> trace (snd (PruneVolumes c w)) = trace w @ [API_VolumesPrune []]
   \<and> trace (snd (PruneNetworks c w)) = trace w @ [API_NetworksPrune []]
   \<and> engine_prune [] cs = filter is_running cs
   \<and> (fst (teardown c w) = None \<longrightarrow>
        (\<exists>pre. trace (snd (teardown c w)) =
           pre @ [API_ContainersPrune [], API_VolumesPrune [], API_NetworksPrune []]))"
  using teardown_prunes [of c w]
  by (simp add: PruneContainers_def PruneVolumes_def PruneNetworks_def prune_call_trace
      engine_prune_def match_no_filter)

text \<open>The amended C2 on the host: the teardown of \<open>mediastack\<close>.\<close>

theorem C2_prunes_not_scoped_witness:
  "fst (teardown mediastack host) = None
   \<and> trace (snd (teardown mediastack host)) =
       [API_ContainerList False [(''label'', ''com.docker.compose.project=mediastack'')],
        API_ContainerInspect ''aaaaaaaaaaaaaaaa'', API_ContainerStop ''aaaaaaaaaaaa'']
       @ [API_ContainersPrune [], API_VolumesPrune [], API_NetworksPrune []]
   \<and> engine_prune [] (engine host 0) = filter is_running (engine host 0)"
proof -
  have n: "fst (teardown mediastack host) = None"
    by (simp add: teardown_defs host_defs client_defs)
  have t: "trace (snd (teardown mediastack host)) =
       [API_ContainerList False [(''label'', ''com.docker.compose.project=mediastack'')],
        API_ContainerInspect ''aaaaaaaaaaaaaaaa'', API_ContainerStop ''aaaaaaaaaaaa'',
        API_ContainersPrune [], API_VolumesPrune [], API_NetworksPrune []]"
    by (simp add: teardown_defs host_defs client_defs)
  show ?thesis
    using C2_prunes_not_scoped [of mediastack host "engine host 0"] n t by simp
qed

text \<open>
  C2 as stated fails: the prune of the client of \<open>mediastack\<close> carries no filter, and
  on the host it deletes the exited container \<open>blog-web-1\<close> of the project \<open>blog\<close>.
\<close>

theorem C2_counterexample:
  "trace (snd (PruneContainers mediastack host)) = [API_ContainersPrune []]
   \<and> engine_prune [] (engine host 0) = [sonarr, blog_db]
   \<and> s_Labels blog_web ''com.docker.compose.project'' = Some ''blog''
   \<and> blog_web \<in> set (engine host 0)
   \<and> blog_web \<notin> set (engine_prune [] (engine host 0))"
  by (simp add: PruneContainers_def prune_call_def emit_def engine_prune_def match_filters_def
      is_running_def host_defs)


section \<open>Bring-up\<close>

lemma runCommand_trace:
  "trace (snd (runCommand c args stream w)) = trace w @ [Docker_CLI (baseArgs c @ args)]"
  by (simp add: runCommand_def Let_def emit_def)

lemma runCommandOutput_trace:
  "trace (snd (runCommandOutput c args w)) = trace w @ [Docker_CLI (baseArgs c @ args)]"
  by (simp add: runCommandOutput_def Let_def emit_def)

lemma IsRunning_trace:
  "trace (snd (IsRunning c service w)) = trace w @ [Docker_CLI (baseArgs c @ [''ps'', ''-q'', service])]"
  using runCommandOutput_trace [of c "[''ps'', ''-q'', service]" w]
  by (auto simp: IsRunning_def GetContainerID_def split: prod.splits sum.splits)

lemma verify_loop_trace:
  "trace (snd (verify_loop c ss running failed w)) =
     trace w @ map (\<lambda>service. Docker_CLI (baseArgs c @ [''ps'', ''-q'', service])) ss"
proof (induction ss arbitrary: running failed w)
  case Nil
  then show ?case by simp
next
  case (Cons service ss)
  obtain r w' where i: "IsRunning c service w = (r, w')" by (cases "IsRunning c service w")
  with IsRunning_trace [of c service w]
  have "trace w' = trace w @ [Docker_CLI (baseArgs c @ [''ps'', ''-q'', service])]" by simp
  with i Cons.IH show ?case by (auto split: sum.splits)
qed

lemma ConfigServices_trace:
  "trace (snd (ConfigServices c w)) = trace w @ [Docker_CLI (baseArgs c @ [''config'', ''--services''])]"
  using runCommandOutput_trace [of c "[''config'', ''--services'']" w]
  by (auto simp: ConfigServices_def split: prod.splits sum.splits)

lemma verify_trace:
  "trace (snd (verify c w)) =
     trace w @ Docker_CLI (baseArgs c @ [''config'', ''--services''])
       # (case fst (ConfigServices c w) of
            Inl e \<Rightarrow> []
          | Inr services \<Rightarrow>
              map (\<lambda>service. Docker_CLI (baseArgs c @ [''ps'', ''-q'', service])) services)"
proof -
  obtain r w' where i: "ConfigServices c w = (r, w')" by (cases "ConfigServices c w")
  with ConfigServices_trace [of c w]
  have t: "trace w' = trace w @ [Docker_CLI (baseArgs c @ [''config'', ''--services''])]" by simp
  show ?thesis
  proof (cases r)
    case (Inl e)
    with i t show ?thesis by (simp add: verify_def)
  next
    case (Inr services)
    obtain tally w'' where v: "verify_loop c services 0 0 w' = (tally, w'')"
      by (cases "verify_loop c services 0 0 w'")
    with verify_loop_trace [of c services 0 0 w'] t Inr i show ?thesis
      by (simp add: verify_def)
  qed
qed

lemma deploy_finish_trace:
  "trace (snd (deploy_finish fl compose client w)) =
     trace w @ Docker_CLI (baseArgs compose @ [''config'', ''--services''])
       # (case fst (ConfigServices compose w) of
            Inl e \<Rightarrow> []
          | Inr services \<Rightarrow>
              map (\<lambda>service. Docker_CLI (baseArgs compose @ [''ps'', ''-q'', service])) services)
       @ (if prune fl then [API_ImagesPrune [(''dangling'', ''false'')]] else [])"
  by (simp add: deploy_finish_def Let_def PruneImages_def prune_call_trace verify_trace)

lemma deploy_replace_up:
  assumes "fst (deploy_replace fl cfg c w) = None"
  shows "Docker_CLI (baseArgs c @ Up_args True (force fl))
           \<in> set (trace (snd (deploy_replace fl cfg c w)))"
proof -
  let ?cl = "\<lparr>projectName = ProjectName cfg\<rparr>"
  obtain r3 w3 where c3: "teardown ?cl w = (r3, w3)" by (cases "teardown ?cl w")
  obtain r4 w4 where c4: "Up c True (force fl) w3 = (r4, w4)"
    by (cases "Up c True (force fl) w3")
  from assms c3 c4 have "deploy_replace fl cfg c w = deploy_finish fl c ?cl w4"
    by (simp add: deploy_replace_def Let_def split: option.splits if_splits)
  moreover from c4 have "trace w4 = trace w3 @ [Docker_CLI (baseArgs c @ Up_args True (force fl))]"
    using runCommand_trace [of c "Up_args True (force fl)" True w3] by (simp add: Up_def)
  ultimately show ?thesis by (simp add: deploy_finish_trace)
qed

lemma deploy_runtime_up:
  assumes "fst (deploy_runtime fl cfg verbose w) = None"
  shows "Docker_CLI (baseArgs (deploy_compose cfg verbose) @ Up_args True (force fl))
           \<in> set (trace (snd (deploy_runtime fl cfg verbose w)))"
proof -
  let ?c = "deploy_compose cfg verbose"
  obtain r1 w1 where c1: "Config ?c w = (r1, w1)" by (cases "Config ?c w")
  obtain r2 w2 where c2: "Pull ?c w1 = (r2, w2)" by (cases "Pull ?c w1")
  define w2' where "w2' = (if pullFirst fl then w2 else w1)"
  from assms c1 c2 have "deploy_runtime fl cfg verbose w = deploy_replace fl cfg ?c w2'"
    by (simp add: deploy_runtime_def Let_def w2'_def split: option.splits if_splits)
  with assms deploy_replace_up [of fl cfg ?c w2'] show ?thesis by simp
qed

text \<open>
  C5. The bring-up hands the runtime one \<open>docker compose\<close> call whose arguments are
  \<open>up\<close>, \<open>-d\<close> when detached, \<open>--build\<close> when the third argument of \<open>Up\<close> is set, and
  \<open>--remove-orphans\<close>: no force-recreate option for any value of the flags. A deploy
  that succeeds has made this call with the \<open>--force\<close> flag in the third position, so
  \<open>deploy --force\<close> passes \<open>--build\<close>; on the host with two projects the command runs
  \<open>up -d --build --remove-orphans\<close>.
\<close>

theorem C5_deploy_force_passes_build:
  "trace (snd (Up c detach build w)) = trace w @ [Docker_CLI (baseArgs c @ Up_args detach build)]
   \<and> Up_args True (force fl) =
       [''up'', ''-d''] @ (if force fl then [''--build''] else []) @ [''--remove-orphans'']
   \<and> ''--force-recreate'' \<notin> set (Up_args detach build)
   \<and> (fst (runDeploy fl cfg False verbose w) = None \<longrightarrow>
        Docker_CLI (baseArgs (deploy_compose (normalized cfg) verbose) @ Up_args True (force fl))
          \<in> set (trace (snd (runDeploy fl cfg False verbose w))))
   \<and> fst (runDeploy force_flags demo_cfg False False host) = None
   \<and> trace (snd (runDeploy force_flags demo_cfg False False host)) =
       [Docker_CLI [''compose'', ''-f'', ''/docker/full-download-vpn/docker-compose.yaml'',
                    ''--env-file'', ''/docker/base-working-files/.env'', ''-p'', ''mediastack'',
                    ''config'', ''--quiet''],
        API_ContainerList False [(''label'', ''com.docker.compose.project=mediastack'')],
        API_ContainerInspect ''aaaaaaaaaaaaaaaa'',
        API_ContainerStop ''aaaaaaaaaaaa'',
        API_ContainersPrune [], API_VolumesPrune [], API_NetworksPrune [],
        Docker_CLI [''compose'', ''-f'', ''/docker/full-download-vpn/docker-compose.yaml'',
                    ''--env-file'', ''/docker/base-working-files/.env'', ''-p'', ''mediastack'',
                    ''up'', ''-d'', ''--build'', ''--remove-orphans''],
        Docker_CLI [''compose'', ''-f'', ''/docker/full-download-vpn/docker-compose.yaml'',
                    ''--env-file'', ''/docker/base-working-files/.env'', ''-p'', ''mediastack'',
                    ''config'', ''--services'']]"
proof (intro conjI impI)
  show "trace (snd (Up c detach build w)) = trace w @ [Docker_CLI (baseArgs c @ Up_args detach build)]"
    by (simp add: Up_def runCommand_trace)
  show "Up_args True (force fl) =
       [''up'', ''-d''] @ (if force fl then [''--build''] else []) @ [''--remove-orphans'']"
    by (simp add: Up_args_def)
  show "''--force-recreate'' \<notin> set (Up_args detach build)"
    by (simp add: Up_args_def)
  show "Docker_CLI (baseArgs (deploy_compose (normalized cfg) verbose) @ Up_args True (force fl))
          \<in> set (trace (snd (runDeploy fl cfg False verbose w)))"
    if "fst (runDeploy fl cfg False verbose w) = None"
    using that deploy_runtime_up [of fl "normalized cfg" verbose]
    by (auto simp: runDeploy_def Let_def split: prod.splits option.splits)
  have prep: "deploy_prepare force_flags (normalized demo_cfg) False False host = (None, host)"
    by (simp add: deploy_prepare_def force_flags_def SetConfigPermissions_def host_def)
  have cmp: "deploy_compose (normalized demo_cfg) False =
       \<lparr>cmp_projectName = ''mediastack'', cmp_configDir = ''/docker/base-working-files'',
        cmp_composeFile = ''/docker/full-download-vpn/docker-compose.yaml'',
        cmp_envFile = ''/docker/base-working-files/.env'', cmp_verbose = False\<rparr>"
    by (simp add: deploy_compose_def normalized_def demo_cfg_def NormalizeVariant_def
        NewCompose_def SetVerbose_def ComposeFile_def Join_def Dir_def Clean_def clean_step_def
        HasPrefix_def)
  have pn: "ProjectName (normalized demo_cfg) = ''mediastack''"
    by (simp add: normalized_def demo_cfg_def)
  have run: "deploy_runtime force_flags (normalized demo_cfg) False host =
      (None, host\<lparr>trace :=
       [Docker_CLI [''compose'', ''-f'', ''/docker/full-download-vpn/docker-compose.yaml'',
                    ''--env-file'', ''/docker/base-working-files/.env'', ''-p'', ''mediastack'',
                    ''config'', ''--quiet''],
        API_ContainerList False [(''label'', ''com.docker.compose.project=mediastack'')],
        API_ContainerInspect ''aaaaaaaaaaaaaaaa'',
        API_ContainerStop ''aaaaaaaaaaaa'',
        API_ContainersPrune [], API_VolumesPrune [], API_NetworksPrune [],
        Docker_CLI [''compose'', ''-f'', ''/docker/full-download-vpn/docker-compose.yaml'',
                    ''--env-file'', ''/docker/base-working-files/.env'', ''-p'', ''mediastack'',
                    ''up'', ''-d'', ''--build'', ''--remove-orphans''],
        Docker_CLI [''compose'', ''-f'', ''/docker/full-download-vpn/docker-compose.yaml'',
                    ''--env-file'', ''/docker/base-working-files/.env'', ''-p'', ''mediastack'',
                    ''config'', ''--services'']]\<rparr>)"
    unfolding deploy_runtime_def deploy_replace_def cmp pn
    by (simp add: force_flags_def Config_def runCommand_def baseArgs_def Up_def Up_args_def
        deploy_finish_def verify_def ConfigServices_def runCommandOutput_def Scan_def
        teardown_defs host_defs client_defs)
  show "fst (runDeploy force_flags demo_cfg False False host) = None"
    by (simp add: runDeploy_def prep run)
  show "trace (snd (runDeploy force_flags demo_cfg False False host)) =
       [Docker_CLI [''compose'', ''-f'', ''/docker/full-download-vpn/docker-compose.yaml'',
                    ''--env-file'', ''/docker/base-working-files/.env'', ''-p'', ''mediastack'',
                    ''config'', ''--quiet''],
        API_ContainerList False [(''label'', ''com.docker.compose.project=mediastack'')],
        API_ContainerInspect ''aaaaaaaaaaaaaaaa'',
        API_ContainerStop ''aaaaaaaaaaaa'',
        API_ContainersPrune [], API_VolumesPrune [], API_NetworksPrune [],
        Docker_CLI [''compose'', ''-f'', ''/docker/full-download-vpn/docker-compose.yaml'',
                    ''--env-file'', ''/docker/base-working-files/.env'', ''-p'', ''mediastack'',
                    ''up'', ''-d'', ''--build'', ''--remove-orphans''],
        Docker_CLI [''compose'', ''-f'', ''/docker/full-download-vpn/docker-compose.yaml'',
                    ''--env-file'', ''/docker/base-working-files/.env'', ''-p'', ''mediastack'',
                    ''config'', ''--services'']]"
    by (simp add: runDeploy_def prep run)
qed

text \<open>C5 on the host: the deploy with \<open>--force\<close> succeeds and has run \<open>up\<close> with \<open>--build\<close>.\<close>

theorem C5_deploy_force_passes_build_witness:
  "fst (runDeploy force_flags demo_cfg False False host) = None
   \<and> Docker_CLI [''compose'', ''-f'', ''/docker/full-download-vpn/docker-compose.yaml'',
                  ''--env-file'', ''/docker/base-working-files/.env'', ''-p'', ''mediastack'',
                  ''up'', ''-d'', ''--build'', ''--remove-orphans'']
       \<in> set (trace (snd (runDeploy force_flags demo_cfg False False host)))"
  using C5_deploy_force_passes_build
    [where fl = force_flags and cfg = demo_cfg and verbose = False and w = host]
  by simp

end
